theory Spec2Isabelle
  imports Main
begin

section \<open>The entry point \<open>train_framework\<close> of train.py\<close>

text \<open>
  The development embeds the one function of train.py, \<open>train_framework\<close>, as a
  computation that produces the sequence of calls it makes to its collaborators (the
  trace) and either completes or stops at the first exception. The collaborators that
  live outside train.py (torch, glob, os.path, the dataset loader, the logger) are
  fields of an environment record. The checkpoint loader and the Trainer class belong to
  the repository but their files are not part of the sources at hand; they are modelled
  from the specification, each under a comment that says so.

  Conventions. Floating-point hyper-parameters, the logger, the summary writer, the data
  loaders and the entries of \<open>model_config\<close> are handed through to the Trainer untouched
  and take no part in the control flow, so they are left out. \<open>train_config\<close> is a
  record of the keys the function reads: the dictionary is taken to hold each of them
  with a value of the expected type. Tensors and state dictionaries are opaque handles.
  Python's \<open>assert\<close> is taken to be active (the interpreter does not run with \<open>-O\<close>).
\<close>

subsection \<open>Exceptions and opaque values\<close>

datatype py_error =
    AssertionError string
  | ZeroDivisionError
  | IndexError
  | KeyError string
  | NotImplementedError
  | NotADirectoryError
  | ModuleNotFoundError string
  | AttributeError
  | FileNotFoundError string
  | ValueError
  | RuntimeError

type_synonym tensor = nat

subsection \<open>Networks, optimizers, the EMA updater, checkpoints\<close>

datatype net_class = Generator | Discriminator | InceptionV3 | linear_classifier

text \<open>The \<open>initialize\<close> argument of a network constructor: Python's \<open>False\<close>, or the
  name of an initialisation scheme.\<close>

datatype init_arg = init_False | init_scheme string

text \<open>A network object: the constructor arguments that matter here, the state dictionary
  (\<open>None\<close> as long as it is the constructor's own), the output device once the object is
  wrapped in \<open>DataParallel\<close>, and whether \<open>patch_replication_callback\<close> was applied.\<close>

record net =
  net_class :: net_class
  net_synchronized_bn :: bool
  net_initialize :: init_arg
  net_state_dict :: "tensor option"
  net_output_device :: "int option"
  net_patched :: bool

datatype optim_family = SGD | RMSprop | Adam

record optim =
  optim_family :: optim_family
  optim_params :: net_class
  optim_state :: "tensor option"

record ema_obj =
  source :: net
  target :: net

text \<open>The Checkpoint Record of the specification's data model.\<close>

record checkpoint =
  ck_state_dict :: tensor
  ck_optimizer :: tensor
  ck_seed :: int
  ck_run_name :: string
  ck_step :: int
  ck_best_step :: int
  ck_best_fid :: "tensor option"
  ck_best_fid_checkpoint_path :: "string option"

datatype loss_fn =
    loss_dcgan_gen | loss_hinge_gen | loss_wgan_gen
  | loss_dcgan_dis | loss_hinge_dis | loss_wgan_dis

subsection \<open>Arguments of \<open>train_framework\<close>\<close>

record train_config =
  tc_checkpoint_folder :: "string option"
  tc_eval :: bool
  tc_train :: bool
  tc_linear_evaluation :: bool
  tc_k_nearest_neighbor :: bool
  tc_interpolation :: bool
  tc_nrow :: int
  tc_ncol :: int
  tc_step_linear_eval :: int
  tc_print_every :: int
  tc_save_every :: int

record args =
  seed :: int
  config_path :: string
  load_current :: bool
  type4eval_dataset :: string
  architecture :: string
  conditional_strategy :: string
  hypersphere_dim :: int
  img_size :: int
  optimizer :: string
  batch_size :: int
  total_step :: int
  adv_loss :: string
  g_init :: init_arg
  d_init :: init_arg
  ema :: bool
  synchronized_bn :: bool
  train_config :: train_config

subsection \<open>The Trainer object\<close>

text \<open>The keyword arguments of the \<open>Trainer(...)\<close> call on lines 194 to 262 that the
  orchestration decides (the remaining ones are plain copies of \<open>train_framework\<close>'s own
  arguments and of \<open>model_config\<close> entries).\<close>

record trainer =
  tr_run_name :: string
  tr_best_step :: int
  tr_n_gpus :: int
  tr_gen_model :: net
  tr_dis_model :: net
  tr_inception_model :: "net option"
  tr_Gen_copy :: "net option"
  tr_linear_model :: "net option"
  tr_Gen_ema :: "ema_obj option"
  tr_conditional_strategy :: string
  tr_G_optimizer :: optim
  tr_D_optimizer :: optim
  tr_L_optimizer :: "optim option"
  tr_batch_size :: int
  tr_total_step :: int
  tr_G_loss :: loss_fn
  tr_D_loss :: loss_fn
  tr_ema :: bool
  tr_default_device :: int
  tr_second_device :: int
  tr_print_every :: int
  tr_save_every :: int
  tr_checkpoint_dir :: string
  tr_evaluate :: bool
  tr_mu :: "tensor option"
  tr_sigma :: "tensor option"
  tr_best_fid :: "tensor option"
  tr_best_fid_checkpoint_path :: "string option"

subsection \<open>Calls to collaborators\<close>

datatype loop_variant = Standard | Contrastive

datatype event =
    Fix_all_seed int
  | Warn_single_gpu
  | LoadDataset bool string
  | Import_module string
  | Construct net
  | Ema_init net net
  | DataParallel net int
  | Patch_replication_callback net
  | Make_optimizer optim
  | Make_checkpoint_dir "string option" string
  | Glob string
  | Load_checkpoint net "optim option" string bool bool
  | Prepare_inception_moments net string
  | Trainer_init trainer
  | Invoke_run_ours int int
  | Invoke_run int int
  | Invoke_evaluation int
  | D_STEP loop_variant int
  | G_STEP loop_variant int
  | Log_metrics int
  | Save_checkpoint string int
  | Evaluation int "tensor option" "tensor option"
  | Nearest_Neighbor int int
  | Linear_interpolation int int bool bool
  | Linear_classification int

text \<open>The world outside train.py. \<open>current_device\<close> may fail (torch needs an
  initialised CUDA context); \<open>files\<close> is what \<open>torch.load\<close> finds at a path;
  \<open>out_dims\<close> is the attribute of that name of the Discriminator module;
  \<open>improved\<close> is the verdict of an evaluation pass at a step.\<close>

record env =
  device_count :: int
  current_device :: "py_error + int"
  make_run_name :: "string \<Rightarrow> string \<Rightarrow> string \<Rightarrow> string"
  module_exists :: "string \<Rightarrow> bool"
  path_exists :: "string \<Rightarrow> bool"
  make_checkpoint_dir :: "string option \<Rightarrow> string \<Rightarrow> string"
  glob :: "string \<Rightarrow> string list"
  files :: "string \<Rightarrow> checkpoint option"
  out_dims :: "int list"
  prepare_inception_moments_eval_dataset :: "net \<Rightarrow> string \<Rightarrow> tensor \<times> tensor \<times> tensor \<times> tensor"
  improved :: "int \<Rightarrow> bool"

subsection \<open>Computations: a trace and a result or an exception\<close>

type_synonym 'a io = "event list \<times> (py_error + 'a)"

definition io_return :: "'a \<Rightarrow> 'a io" where
  "io_return x = ([], Inr x)"

definition io_raise :: "py_error \<Rightarrow> 'a io" where
  "io_raise e = ([], Inl e)"

definition emit :: "event \<Rightarrow> unit io" where
  "emit ev = ([ev], Inr ())"

definition io_lift :: "py_error + 'a \<Rightarrow> 'a io" where
  "io_lift r = ([], r)"

definition io_bind :: "'a io \<Rightarrow> ('a \<Rightarrow> 'b io) \<Rightarrow> 'b io" where
  "io_bind m f =
     (case snd m of
        Inl e \<Rightarrow> (fst m, Inl e)
      | Inr x \<Rightarrow> (fst m @ fst (f x), snd (f x)))"

definition io_assert :: "bool \<Rightarrow> string \<Rightarrow> unit io" where
  "io_assert b msg = (if b then io_return () else io_raise (AssertionError msg))"

definition io_when :: "bool \<Rightarrow> unit io \<Rightarrow> unit io" where
  "io_when b m = (if b then m else io_return ())"

text \<open>A name bound to \<open>None\<close> used where an object is needed.\<close>

definition on_some :: "'a option \<Rightarrow> ('a \<Rightarrow> 'b io) \<Rightarrow> 'b io" where
  "on_some x f = (case x of None \<Rightarrow> io_raise AttributeError | Some v \<Rightarrow> f v)"

subsection \<open>Python primitives\<close>

definition py_mod :: "int \<Rightarrow> int \<Rightarrow> py_error + int" where
  "py_mod a b = (if b = 0 then Inl ZeroDivisionError else Inr (a mod b))"

definition py_index :: "'a list \<Rightarrow> nat \<Rightarrow> py_error + 'a" where
  "py_index xs i = (if i < length xs then Inr (xs ! i) else Inl IndexError)"

text \<open>\<open>str.split(sep)\<close> for a one-character separator.\<close>

fun py_split :: "char \<Rightarrow> string \<Rightarrow> string list" where
  "py_split sep [] = [[]]"
| "py_split sep (c # cs) =
     (if c = sep then [] # py_split sep cs
      else (case py_split sep cs of
              [] \<Rightarrow> [[c]]
            | w # ws \<Rightarrow> (c # w) # ws))"

text \<open>\<open>s[:-5]\<close>.\<close>

definition drop_last5 :: "string \<Rightarrow> string" where
  "drop_last5 s = take (length s - 5) s"

text \<open>\<open>os.path.join(a, b)\<close> for a relative \<open>b\<close>.\<close>

definition join :: "string \<Rightarrow> string \<Rightarrow> string" where
  "join a b = (if a = [] then b else if last a = CHR ''/'' then a @ b else a @ ''/'' @ b)"

definition RUN_NAME_FORMAT :: string where
  "RUN_NAME_FORMAT = ''{framework}-{phase}-{timestamp}''"


definition py_getitem :: "(string \<Rightarrow> 'a option) \<Rightarrow> string \<Rightarrow> py_error + 'a" where
  "py_getitem d k = (case d k of None \<Rightarrow> Inl (KeyError k) | Some v \<Rightarrow> Inr v)"

subsection \<open>The checkpoint loader\<close>

text \<open>
  Modelled from the spec: \<open>load_checkpoint\<close> of utils/load_checkpoint.py, which is not
  among the sources. Section 4.3 gives its result as
  \<open>(model, optimizer, seed, run_name, step, best_step[, best_score, best_score_path])\<close>,
  the bracketed part on request (\<open>metric\<close>), and says that restoring a Generator-EMA
  checkpoint loads weights only; section 3 gives the content of a checkpoint record. The
  specification is silent on a missing optimizer outside the EMA case; the call sites of
  train.py never produce it.
\<close>

datatype loaded =
    Restored net optim int string int int
  | Restored_metric net optim int string int int "tensor option" "string option"
  | Restored_ema net

definition load_checkpoint ::
  "env \<Rightarrow> net \<Rightarrow> optim option \<Rightarrow> string \<Rightarrow> bool \<Rightarrow> bool \<Rightarrow> loaded io" where
  "load_checkpoint env model opt filename metric ema_flag =
     io_bind (emit (Load_checkpoint model opt filename metric ema_flag)) (\<lambda>_.
     case files env filename of
       None \<Rightarrow> io_raise (FileNotFoundError filename)
     | Some ck \<Rightarrow>
         if ema_flag then
           io_return (Restored_ema (model\<lparr>net_state_dict := Some (ck_state_dict ck)\<rparr>))
         else
           on_some opt (\<lambda>ob.
             io_return
               (if metric then
                  Restored_metric
                    (model\<lparr>net_state_dict := Some (ck_state_dict ck)\<rparr>)
                    (ob\<lparr>optim_state := Some (ck_optimizer ck)\<rparr>)
                    (ck_seed ck) (ck_run_name ck) (ck_step ck) (ck_best_step ck)
                    (ck_best_fid ck) (ck_best_fid_checkpoint_path ck)
                else
                  Restored
                    (model\<lparr>net_state_dict := Some (ck_state_dict ck)\<rparr>)
                    (ob\<lparr>optim_state := Some (ck_optimizer ck)\<rparr>)
                    (ck_seed ck) (ck_run_name ck) (ck_step ck) (ck_best_step ck))))"

text \<open>The three shapes in which train.py takes the loader's result apart (lines 144, 145
  and 149). A result of another shape does not unpack.\<close>

definition unpack6 :: "loaded \<Rightarrow> (net \<times> optim \<times> int \<times> string \<times> int \<times> int) io" where
  "unpack6 r = (case r of Restored m ob sd rn st bs \<Rightarrow> io_return (m, ob, sd, rn, st, bs)
                | _ \<Rightarrow> io_raise ValueError)"

definition unpack8 ::
  "loaded \<Rightarrow> (net \<times> optim \<times> int \<times> string \<times> int \<times> int \<times> tensor option \<times> string option) io" where
  "unpack8 r = (case r of Restored_metric m ob sd rn st bs bf bp \<Rightarrow>
                            io_return (m, ob, sd, rn, st, bs, bf, bp)
                | _ \<Rightarrow> io_raise ValueError)"

definition as_model :: "loaded \<Rightarrow> net io" where
  "as_model r = (case r of Restored_ema m \<Rightarrow> io_return m | _ \<Rightarrow> io_raise ValueError)"

subsection \<open>The Trainer's methods\<close>

text \<open>
  Modelled from the spec: the methods of the Trainer class (trainer.py), which is not
  among the sources. Section 4.6: \<open>evaluation(step)\<close> scores freshly generated samples
  against the cached reference statistics and returns the "improved" flag. Section 4.5:
  the loop is driven by the step counter up to \<open>total_step\<close>; an iteration is a D_STEP, a
  G_STEP, the EVAL_GATE (a log entry every \<open>print_every\<close> steps, the CHECKPOINT_GATE every
  \<open>save_every\<close> steps); the CHECKPOINT_GATE saves the "current" checkpoints, evaluates if
  evaluation is configured and saves the "best" checkpoints on an improved score; the loop
  ends when the counter reaches \<open>total_step\<close> and returns the final count. The two
  variants share this shape.
\<close>

definition evaluation :: "env \<Rightarrow> trainer \<Rightarrow> int \<Rightarrow> bool io" where
  "evaluation env tr st =
     io_bind (emit (Evaluation st (tr_mu tr) (tr_sigma tr))) (\<lambda>_.
     io_return (improved env st))"

definition checkpoint_gate :: "env \<Rightarrow> trainer \<Rightarrow> int \<Rightarrow> unit io" where
  "checkpoint_gate env tr st =
     io_bind (emit (Save_checkpoint ''current'' st)) (\<lambda>_.
     if tr_evaluate tr then
       io_bind (evaluation env tr st) (\<lambda>is_best.
       io_when is_best (emit (Save_checkpoint ''best'' st)))
     else io_return ())"

function train_loop :: "env \<Rightarrow> trainer \<Rightarrow> loop_variant \<Rightarrow> int \<Rightarrow> int \<Rightarrow> int io" where
  "train_loop env tr v step_count total_steps =
     (if step_count < total_steps then
        io_bind (emit (D_STEP v step_count)) (\<lambda>_.
        io_bind (emit (G_STEP v step_count)) (\<lambda>_.
        io_bind (io_when (tr_print_every tr dvd step_count + 1)
                   (emit (Log_metrics (step_count + 1)))) (\<lambda>_.
        io_bind (io_when (tr_save_every tr dvd step_count + 1)
                   (checkpoint_gate env tr (step_count + 1))) (\<lambda>_.
        train_loop env tr v (step_count + 1) total_steps))))
      else io_return step_count)"
  by pat_completeness auto
termination
  by (relation "measure (\<lambda>(env, tr, v, step_count, total_steps). nat (total_steps - step_count))") auto

definition run :: "env \<Rightarrow> trainer \<Rightarrow> int \<Rightarrow> int \<Rightarrow> int io" where
  "run env tr current_step total_steps = train_loop env tr Standard current_step total_steps"

definition run_ours :: "env \<Rightarrow> trainer \<Rightarrow> int \<Rightarrow> int \<Rightarrow> int io" where
  "run_ours env tr current_step total_steps = train_loop env tr Contrastive current_step total_steps"

definition Nearest_Neighbor_call :: "trainer \<Rightarrow> int \<Rightarrow> int \<Rightarrow> unit io" where
  "Nearest_Neighbor_call tr r c = emit (Nearest_Neighbor r c)"

definition linear_interpolation :: "trainer \<Rightarrow> int \<Rightarrow> int \<Rightarrow> bool \<Rightarrow> bool \<Rightarrow> unit io" where
  "linear_interpolation tr r c fix_z fix_y = emit (Linear_interpolation r c fix_z fix_y)"

definition linear_classification :: "trainer \<Rightarrow> int \<Rightarrow> unit io" where
  "linear_classification tr n = emit (Linear_classification n)"


subsection \<open>\<open>train_framework\<close>, lines 48 to 135: devices, data, models, optimizers\<close>

text \<open>The local variables that are live after line 135.\<close>

record frame =
  n_gpus :: int
  default_device :: int
  second_device :: int
  step :: int
  best_step :: int
  best_fid :: "tensor option"
  best_fid_checkpoint_path :: "string option"
  run_name :: string
  Gen :: net
  Dis :: net
  Gen_copy :: "net option"
  Gen_ema :: "ema_obj option"
  G_optimizer :: optim
  D_optimizer :: optim

text \<open>Lines 48 to 58. The result is \<open>(n_gpus, default_device, second_device)\<close>.\<close>

definition select_devices :: "env \<Rightarrow> args \<Rightarrow> (int \<times> int \<times> int) io" where
  "select_devices env a =
     io_bind (emit (Fix_all_seed (seed a))) (\<lambda>_.
     io_bind (io_lift (current_device env)) (\<lambda>dev.
     io_bind (io_lift (py_mod (batch_size a) (device_count env))) (\<lambda>r.
     io_bind (io_assert (r = 0) ''batch_size should be divided by the number of gpus '') (\<lambda>_.
     io_bind (io_when (device_count env = 1) (emit Warn_single_gpu)) (\<lambda>_.
     io_return
       (device_count env, dev,
        if device_count env = 1 \<or> conditional_strategy a = ''Proxy_NCA_GAN''
        then dev else dev + 1))))))"

text \<open>Lines 60 to 83: the run name and the two datasets.\<close>

definition name_run :: "env \<Rightarrow> args \<Rightarrow> string io" where
  "name_run env a =
     io_bind (io_lift (py_index (py_split CHR ''/'' (config_path a)) 3)) (\<lambda>component.
     io_bind (emit (LoadDataset True (conditional_strategy a))) (\<lambda>_.
     io_bind (emit (LoadDataset (type4eval_dataset a = ''train'') ''no'')) (\<lambda>_.
     io_return (make_run_name env RUN_NAME_FORMAT (drop_last5 component) ''train''))))"

definition construct :: "net_class \<Rightarrow> bool \<Rightarrow> init_arg \<Rightarrow> net io" where
  "construct c sbn ini =
     io_bind
       (emit (Construct \<lparr>net_class = c, net_synchronized_bn = sbn, net_initialize = ini,
                         net_state_dict = None, net_output_device = None,
                         net_patched = False\<rparr>)) (\<lambda>_.
     io_return \<lparr>net_class = c, net_synchronized_bn = sbn, net_initialize = ini,
                net_state_dict = None, net_output_device = None, net_patched = False\<rparr>)"

definition data_parallel :: "net \<Rightarrow> int \<Rightarrow> net io" where
  "data_parallel m dev =
     io_bind (emit (DataParallel m dev)) (\<lambda>_.
     io_return (m\<lparr>net_output_device := Some dev\<rparr>))"

definition patch_replication_callback :: "net \<Rightarrow> net io" where
  "patch_replication_callback m =
     io_bind (emit (Patch_replication_callback m)) (\<lambda>_.
     io_return (m\<lparr>net_patched := True\<rparr>))"

text \<open>Lines 85 to 111. The result is \<open>(Gen, Dis, Gen_copy, Gen_ema)\<close>. In the first
  Generator call \<open>g_init\<close> is passed in the position of the parameter that the second
  call names \<open>initialize\<close>.\<close>

definition build_models ::
  "env \<Rightarrow> args \<Rightarrow> int \<Rightarrow> int \<Rightarrow> (net \<times> net \<times> net option \<times> ema_obj option) io" where
  "build_models env a n dev2 =
     io_bind (io_when (architecture a = ''dcgan'')
                (io_assert (img_size a = 32)
                   ''Sry, StudioGAN does not support dcgan models for generation of images larger than 32 resolution.'')) (\<lambda>_.
     io_bind (if module_exists env (''models.'' @ architecture a)
              then emit (Import_module (''models.'' @ architecture a))
              else io_raise (ModuleNotFoundError (''models.'' @ architecture a))) (\<lambda>_.
     io_bind (construct Generator (synchronized_bn a) (g_init a)) (\<lambda>g.
     io_bind (construct Discriminator (synchronized_bn a) (d_init a)) (\<lambda>d.
     io_bind (if ema a then
                io_bind (construct Generator False init_False) (\<lambda>gc.
                io_bind (emit (Ema_init g gc)) (\<lambda>_.
                io_return (Some gc, Some \<lparr>source = g, target = gc\<rparr>)))
              else io_return (None, None)) (\<lambda>(gc, ge).
     if 1 < n then
       io_bind (data_parallel g dev2) (\<lambda>g1.
       io_bind (data_parallel d dev2) (\<lambda>d1.
       io_bind (if ema a then
                  on_some gc (\<lambda>m. io_bind (data_parallel m dev2) (\<lambda>m1. io_return (Some m1)))
                else io_return gc) (\<lambda>gc1.
       if synchronized_bn a then
         io_bind (patch_replication_callback g1) (\<lambda>g2.
         io_bind (patch_replication_callback d1) (\<lambda>d2.
         io_return (g2, d2, gc1, ge)))
       else io_return (g1, d1, gc1, ge))))
     else io_return (g, d, gc, ge))))))"

text \<open>Lines 122 and 123.\<close>

definition G_loss :: "string \<Rightarrow> loss_fn option" where
  "G_loss = [''vanilla'' \<mapsto> loss_dcgan_gen, ''hinge'' \<mapsto> loss_hinge_gen,
             ''wasserstein'' \<mapsto> loss_wgan_gen]"

definition D_loss :: "string \<Rightarrow> loss_fn option" where
  "D_loss = [''vanilla'' \<mapsto> loss_dcgan_dis, ''hinge'' \<mapsto> loss_hinge_dis,
             ''wasserstein'' \<mapsto> loss_wgan_dis]"

definition new_optim :: "optim_family \<Rightarrow> net_class \<Rightarrow> optim io" where
  "new_optim fam c =
     io_bind (emit (Make_optimizer \<lparr>optim_family = fam, optim_params = c, optim_state = None\<rparr>)) (\<lambda>_.
     io_return \<lparr>optim_family = fam, optim_params = c, optim_state = None\<rparr>)"

definition optim_pair :: "optim_family \<Rightarrow> (optim \<times> optim) io" where
  "optim_pair fam =
     io_bind (new_optim fam Generator) (\<lambda>go.
     io_bind (new_optim fam Discriminator) (\<lambda>dopt.
     io_return (go, dopt)))"

text \<open>Lines 125 to 135.\<close>

definition make_optimizers :: "args \<Rightarrow> (optim \<times> optim) io" where
  "make_optimizers a =
     (if optimizer a = ''SGD'' then optim_pair SGD
      else if optimizer a = ''RMSprop'' then optim_pair RMSprop
      else if optimizer a = ''Adam'' then optim_pair Adam
      else io_raise NotImplementedError)"

text \<open>Lines 48 to 135 together.\<close>

definition initialise :: "env \<Rightarrow> args \<Rightarrow> frame io" where
  "initialise env a =
     io_bind (select_devices env a) (\<lambda>(n, dev, dev2).
     io_bind (name_run env a) (\<lambda>rn.
     io_bind (build_models env a n dev2) (\<lambda>(g, d, gc, ge).
     io_bind (make_optimizers a) (\<lambda>(go, dopt).
     io_return
       \<lparr>n_gpus = n, default_device = dev, second_device = dev2,
        step = 0, best_step = 0, best_fid = None, best_fid_checkpoint_path = None,
        run_name = rn, Gen = g, Dis = d, Gen_copy = gc, Gen_ema = ge,
        G_optimizer = go, D_optimizer = dopt\<rparr>))))"

subsection \<open>Lines 137 to 157: resuming from a checkpoint\<close>

text \<open>\<open>glob.glob(pattern)[0]\<close>.\<close>

definition glob_first :: "env \<Rightarrow> string \<Rightarrow> string io" where
  "glob_first env pat =
     io_bind (emit (Glob pat)) (\<lambda>_. io_lift (py_index (glob env pat) 0))"

definition checkpoint_pattern :: "string \<Rightarrow> string \<Rightarrow> string \<Rightarrow> string" where
  "checkpoint_pattern checkpoint_dir role slot =
     join checkpoint_dir (''model='' @ role @ ''-'' @ slot @ ''-weights-step*.pth'')"

text \<open>Lines 147 to 150, given \<open>checkpoint_dir\<close> and the restored \<open>Gen\<close>. The result is
  \<open>(Gen_copy, Gen_ema)\<close>.\<close>

definition restore_ema ::
  "env \<Rightarrow> args \<Rightarrow> string \<Rightarrow> frame \<Rightarrow> net \<Rightarrow> (net option \<times> ema_obj option) io" where
  "restore_ema env a checkpoint_dir fr g =
     (if ema a then
        io_bind (glob_first env
                   (checkpoint_pattern checkpoint_dir ''G_ema''
                      (if load_current a then ''current'' else ''best''))) (\<lambda>g_ema_checkpoint_dir.
        io_bind (on_some (Gen_copy fr) (\<lambda>gc.
                   io_bind (load_checkpoint env gc None g_ema_checkpoint_dir False True)
                     as_model)) (\<lambda>gc1.
        on_some (Gen_ema fr) (\<lambda>ge.
          io_return (Some gc1, Some (ge\<lparr>source := g, target := gc1\<rparr>)))))
      else io_return (Gen_copy fr, Gen_ema fr))"

text \<open>Lines 138 to 152. The result is the frame with the restored objects and counters,
  \<open>trained_seed\<close> and \<open>checkpoint_dir\<close>.\<close>

definition restore :: "env \<Rightarrow> args \<Rightarrow> string \<Rightarrow> frame \<Rightarrow> (frame \<times> int \<times> string) io" where
  "restore env a folder fr =
     io_bind (if path_exists env folder then io_return () else io_raise NotADirectoryError) (\<lambda>_.
     io_bind (emit (Make_checkpoint_dir (Some folder) (run_name fr))) (\<lambda>_.
     io_bind (glob_first env
                (checkpoint_pattern (make_checkpoint_dir env (Some folder) (run_name fr)) ''G''
                   (if load_current a then ''current'' else ''best''))) (\<lambda>g_checkpoint_dir.
     io_bind (glob_first env
                (checkpoint_pattern (make_checkpoint_dir env (Some folder) (run_name fr)) ''D''
                   (if load_current a then ''current'' else ''best''))) (\<lambda>d_checkpoint_dir.
     io_bind (io_bind (load_checkpoint env (Gen fr) (Some (G_optimizer fr)) g_checkpoint_dir
                         False False) unpack6) (\<lambda>(g, go, g_seed, g_name, g_step, g_best).
     io_bind (io_bind (load_checkpoint env (Dis fr) (Some (D_optimizer fr)) d_checkpoint_dir
                         True False) unpack8)
       (\<lambda>(d, dopt, trained_seed, rn, st, bs, bf, bp).
     io_bind (restore_ema env a (make_checkpoint_dir env (Some folder) (run_name fr)) fr g)
       (\<lambda>(gc2, ge2).
     io_return
       (fr\<lparr>Gen := g, G_optimizer := go, Dis := d, D_optimizer := dopt, run_name := rn,
           step := st, best_step := bs, best_fid := bf, best_fid_checkpoint_path := bp,
           Gen_copy := gc2, Gen_ema := ge2\<rparr>,
        trained_seed,
        make_checkpoint_dir env (Some folder) (run_name fr)))))))))"

text \<open>Lines 137 to 157. The result is the frame and \<open>checkpoint_dir\<close>.\<close>

definition resume :: "env \<Rightarrow> args \<Rightarrow> frame \<Rightarrow> (frame \<times> string) io" where
  "resume env a fr =
     (case tc_checkpoint_folder (train_config a) of
        Some folder \<Rightarrow>
          io_bind (restore env a folder fr) (\<lambda>(fr1, trained_seed, checkpoint_dir).
          io_bind (io_assert (seed a = trained_seed)
                     ''seed for sampling random numbers should be same!'') (\<lambda>_.
          io_return (fr1, checkpoint_dir)))
      | None \<Rightarrow>
          io_bind (emit (Make_checkpoint_dir None (run_name fr))) (\<lambda>_.
          io_return (fr, make_checkpoint_dir env None (run_name fr))))"


subsection \<open>Lines 159 to 262: reference statistics, linear probe, the Trainer\<close>

text \<open>Lines 159 to 171. The result is \<open>(mu, sigma, inception_model)\<close>; the preparer's
  \<open>is_score\<close> and \<open>is_std\<close> are bound and not used again.\<close>

definition reference_statistics ::
  "env \<Rightarrow> args \<Rightarrow> frame \<Rightarrow> (tensor option \<times> tensor option \<times> net option) io" where
  "reference_statistics env a fr =
     (if tc_eval (train_config a) then
        io_bind (construct InceptionV3 False init_False) (\<lambda>m.
        io_bind (data_parallel m (second_device fr)) (\<lambda>inception_model.
        io_bind (emit (Prepare_inception_moments (Gen fr) (type4eval_dataset a))) (\<lambda>_.
        case prepare_inception_moments_eval_dataset env (Gen fr) (type4eval_dataset a) of
          (mu, sigma, is_score, is_std) \<Rightarrow>
            io_return (Some mu, Some sigma, Some inception_model))))
      else io_return (None, None, None))"

text \<open>\<open>Dis.out_dims[-1]\<close> on line 174: a \<open>DataParallel\<close> wrapper does not hand
  attribute reads on to the module it wraps.\<close>

definition last_out_dim :: "env \<Rightarrow> net \<Rightarrow> int io" where
  "last_out_dim env d =
     (if net_output_device d \<noteq> None then io_raise AttributeError
      else if out_dims env = [] then io_raise IndexError
      else io_return (last (out_dims env)))"

text \<open>Lines 173 to 191. The result is \<open>(linear_model, L_optimizer)\<close>.\<close>

definition linear_probe :: "env \<Rightarrow> args \<Rightarrow> frame \<Rightarrow> (net option \<times> optim option) io" where
  "linear_probe env a fr =
     (if tc_linear_evaluation (train_config a) then
        io_bind (if conditional_strategy a = ''ContraGAN'' then io_return (hypersphere_dim a)
                 else last_out_dim env (Dis fr)) (\<lambda>in_channels.
        io_bind (construct linear_classifier False init_False) (\<lambda>m.
        io_bind (if 1 < n_gpus fr then
                   io_bind (data_parallel m (second_device fr)) (\<lambda>m1.
                   if synchronized_bn a then patch_replication_callback m1 else io_return m1)
                 else io_return m) (\<lambda>linear_model.
        io_bind (if optimizer a = ''SGD'' then new_optim SGD linear_classifier
                 else if optimizer a = ''RMSprop'' then new_optim RMSprop linear_classifier
                 else if optimizer a = ''Adam'' then new_optim Adam linear_classifier
                 else io_raise NotImplementedError) (\<lambda>L_optimizer.
        io_return (Some linear_model, Some L_optimizer)))))
      else io_return (None, None))"

text \<open>Lines 194 to 262: the arguments are evaluated, \<open>G_loss[adv_loss]\<close> and
  \<open>D_loss[adv_loss]\<close> among them, and the Trainer is constructed.\<close>

definition make_trainer ::
  "args \<Rightarrow> frame \<Rightarrow> string \<Rightarrow> tensor option \<Rightarrow> tensor option \<Rightarrow> net option \<Rightarrow>
   net option \<Rightarrow> optim option \<Rightarrow> trainer io" where
  "make_trainer a fr checkpoint_dir mu sigma inception_model linear_model L_optimizer =
     io_bind (io_lift (py_getitem G_loss (adv_loss a))) (\<lambda>gl.
     io_bind (io_lift (py_getitem D_loss (adv_loss a))) (\<lambda>dl.
     io_bind (emit (Trainer_init
       \<lparr>tr_run_name = run_name fr, tr_best_step = best_step fr, tr_n_gpus = n_gpus fr,
        tr_gen_model = Gen fr, tr_dis_model = Dis fr, tr_inception_model = inception_model,
        tr_Gen_copy = Gen_copy fr, tr_linear_model = linear_model, tr_Gen_ema = Gen_ema fr,
        tr_conditional_strategy = conditional_strategy a,
        tr_G_optimizer = G_optimizer fr, tr_D_optimizer = D_optimizer fr,
        tr_L_optimizer = L_optimizer, tr_batch_size = batch_size a,
        tr_total_step = total_step a, tr_G_loss = gl, tr_D_loss = dl, tr_ema = ema a,
        tr_default_device = default_device fr, tr_second_device = second_device fr,
        tr_print_every = tc_print_every (train_config a),
        tr_save_every = tc_save_every (train_config a),
        tr_checkpoint_dir = checkpoint_dir, tr_evaluate = tc_eval (train_config a),
        tr_mu = mu, tr_sigma = sigma, tr_best_fid = best_fid fr,
        tr_best_fid_checkpoint_path = best_fid_checkpoint_path fr\<rparr>)) (\<lambda>_.
     io_return
       \<lparr>tr_run_name = run_name fr, tr_best_step = best_step fr, tr_n_gpus = n_gpus fr,
        tr_gen_model = Gen fr, tr_dis_model = Dis fr, tr_inception_model = inception_model,
        tr_Gen_copy = Gen_copy fr, tr_linear_model = linear_model, tr_Gen_ema = Gen_ema fr,
        tr_conditional_strategy = conditional_strategy a,
        tr_G_optimizer = G_optimizer fr, tr_D_optimizer = D_optimizer fr,
        tr_L_optimizer = L_optimizer, tr_batch_size = batch_size a,
        tr_total_step = total_step a, tr_G_loss = gl, tr_D_loss = dl, tr_ema = ema a,
        tr_default_device = default_device fr, tr_second_device = second_device fr,
        tr_print_every = tc_print_every (train_config a),
        tr_save_every = tc_save_every (train_config a),
        tr_checkpoint_dir = checkpoint_dir, tr_evaluate = tc_eval (train_config a),
        tr_mu = mu, tr_sigma = sigma, tr_best_fid = best_fid fr,
        tr_best_fid_checkpoint_path = best_fid_checkpoint_path fr\<rparr>)))"

subsection \<open>Lines 264 to 280: training and the passes after it\<close>

text \<open>Lines 264 to 267. The result is the value of \<open>step\<close> afterwards.\<close>

definition train_dispatch :: "env \<Rightarrow> args \<Rightarrow> trainer \<Rightarrow> int \<Rightarrow> int io" where
  "train_dispatch env a tr st =
     (if conditional_strategy a \<in> set [''ContraGAN'', ''Proxy_NCA_GAN'', ''XT_Xent_GAN'']
         \<and> tc_train (train_config a) then
        io_bind (emit (Invoke_run_ours st (total_step a))) (\<lambda>_.
        run_ours env tr st (total_step a))
      else if tc_train (train_config a) then
        io_bind (emit (Invoke_run st (total_step a))) (\<lambda>_.
        run env tr st (total_step a))
      else io_return st)"

text \<open>Lines 269 to 280.\<close>

definition after_training :: "env \<Rightarrow> args \<Rightarrow> trainer \<Rightarrow> int \<Rightarrow> unit io" where
  "after_training env a tr st =
     io_bind (if tc_eval (train_config a) then
                io_bind (emit (Invoke_evaluation st)) (\<lambda>_.
                io_bind (evaluation env tr st) (\<lambda>is_save. io_return ()))
              else io_return ()) (\<lambda>_.
     io_bind (io_when (tc_k_nearest_neighbor (train_config a))
                (Nearest_Neighbor_call tr (tc_nrow (train_config a))
                   (tc_ncol (train_config a)))) (\<lambda>_.
     io_bind (io_when (tc_interpolation (train_config a))
                (io_bind (linear_interpolation tr (tc_nrow (train_config a))
                            (tc_ncol (train_config a)) True False) (\<lambda>_.
                 linear_interpolation tr (tc_nrow (train_config a))
                   (tc_ncol (train_config a)) False True))) (\<lambda>_.
     io_when (tc_linear_evaluation (train_config a))
       (linear_classification tr (tc_step_linear_eval (train_config a))))))"

text \<open>Lines 48 to 191: everything before the \<open>Trainer(...)\<close> call. The result is the
  frame, \<open>checkpoint_dir\<close>, \<open>mu\<close>, \<open>sigma\<close>, \<open>inception_model\<close>, \<open>linear_model\<close> and
  \<open>L_optimizer\<close>.\<close>

definition prelude ::
  "env \<Rightarrow> args \<Rightarrow>
   (frame \<times> string \<times> tensor option \<times> tensor option \<times> net option \<times> net option \<times> optim option) io"
  where
  "prelude env a =
     io_bind (initialise env a) (\<lambda>fr.
     io_bind (resume env a fr) (\<lambda>(fr1, checkpoint_dir).
     io_bind (reference_statistics env a fr1) (\<lambda>(mu, sigma, inception_model).
     io_bind (linear_probe env a fr1) (\<lambda>(linear_model, L_optimizer).
     io_return (fr1, checkpoint_dir, mu, sigma, inception_model, linear_model, L_optimizer)))))"

text \<open>Lines 48 to 262. The result is the Trainer and the value of \<open>step\<close>.\<close>

definition launch :: "env \<Rightarrow> args \<Rightarrow> (trainer \<times> int) io" where
  "launch env a =
     io_bind (prelude env a)
       (\<lambda>(fr1, checkpoint_dir, mu, sigma, inception_model, linear_model, L_optimizer).
     io_bind (make_trainer a fr1 checkpoint_dir mu sigma inception_model linear_model
                L_optimizer) (\<lambda>tr.
     io_return (tr, step fr1)))"

definition train_framework :: "env \<Rightarrow> args \<Rightarrow> unit io" where
  "train_framework env a =
     io_bind (launch env a) (\<lambda>(tr, st).
     io_bind (train_dispatch env a tr st) (\<lambda>st1.
     after_training env a tr st1))"

subsection \<open>Observations on a run\<close>

definition trace_of :: "'a io \<Rightarrow> event list" where
  "trace_of m = fst m"

definition outcome :: "'a io \<Rightarrow> py_error + 'a" where
  "outcome m = snd m"

text \<open>\<open>quiet P m\<close>: the computation \<open>m\<close> makes no call of the kind \<open>P\<close>.\<close>

definition quiet :: "(event \<Rightarrow> bool) \<Rightarrow> 'a io \<Rightarrow> bool" where
  "quiet P m = (filter P (trace_of m) = [])"

definition failed :: "'a io \<Rightarrow> bool" where
  "failed m = (case outcome m of Inl e \<Rightarrow> True | Inr x \<Rightarrow> False)"

fun is_loop_call :: "event \<Rightarrow> bool" where
  "is_loop_call (Invoke_run_ours c t) = True"
| "is_loop_call (Invoke_run c t) = True"
| "is_loop_call ev = False"

fun is_training :: "event \<Rightarrow> bool" where
  "is_training (Invoke_run_ours c t) = True"
| "is_training (Invoke_run c t) = True"
| "is_training (D_STEP v n) = True"
| "is_training (G_STEP v n) = True"
| "is_training ev = False"

text \<open>The calls that lines 264 to 280 and the Trainer's methods make.\<close>

fun is_late :: "event \<Rightarrow> bool" where
  "is_late (Invoke_run_ours c t) = True"
| "is_late (Invoke_run c t) = True"
| "is_late (Invoke_evaluation n) = True"
| "is_late (D_STEP v n) = True"
| "is_late (G_STEP v n) = True"
| "is_late (Log_metrics n) = True"
| "is_late (Save_checkpoint s n) = True"
| "is_late (Evaluation n mu sigma) = True"
| "is_late (Nearest_Neighbor r c) = True"
| "is_late (Linear_interpolation r c z y) = True"
| "is_late (Linear_classification n) = True"
| "is_late ev = False"

fun is_construct :: "event \<Rightarrow> bool" where
  "is_construct (Construct m) = True"
| "is_construct ev = False"

fun is_trainer_init :: "event \<Rightarrow> bool" where
  "is_trainer_init (Trainer_init tr) = True"
| "is_trainer_init ev = False"

fun is_prepare :: "event \<Rightarrow> bool" where
  "is_prepare (Prepare_inception_moments g m) = True"
| "is_prepare ev = False"

fun is_load :: "event \<Rightarrow> bool" where
  "is_load (Load_checkpoint m ob p metric e) = True"
| "is_load ev = False"

fun is_ema_load :: "event \<Rightarrow> bool" where
  "is_ema_load (Load_checkpoint m ob p metric e) = e"
| "is_ema_load ev = False"

fun is_patch :: "event \<Rightarrow> bool" where
  "is_patch (Patch_replication_callback m) = True"
| "is_patch ev = False"

fun is_invoke_evaluation :: "event \<Rightarrow> bool" where
  "is_invoke_evaluation (Invoke_evaluation n) = True"
| "is_invoke_evaluation ev = False"

fun is_evaluation :: "event \<Rightarrow> bool" where
  "is_evaluation (Evaluation n mu sigma) = True"
| "is_evaluation ev = False"

fun is_d_step :: "event \<Rightarrow> bool" where
  "is_d_step (D_STEP v n) = True"
| "is_d_step ev = False"

text \<open>The calls that lines 48 to 157 and 173 to 191 make.\<close>

fun is_early :: "event \<Rightarrow> bool" where
  "is_early (Invoke_run_ours c t) = False"
| "is_early (Invoke_run c t) = False"
| "is_early (Invoke_evaluation n) = False"
| "is_early (D_STEP v n) = False"
| "is_early (G_STEP v n) = False"
| "is_early (Log_metrics n) = False"
| "is_early (Save_checkpoint s n) = False"
| "is_early (Evaluation n mu sigma) = False"
| "is_early (Nearest_Neighbor r c) = False"
| "is_early (Linear_interpolation r c z y) = False"
| "is_early (Linear_classification n) = False"
| "is_early (Prepare_inception_moments g m) = False"
| "is_early (Trainer_init tr) = False"
| "is_early ev = True"

text \<open>The calls that building the datasets, networks and optimizers makes.\<close>

fun is_build :: "event \<Rightarrow> bool" where
  "is_build (Fix_all_seed n) = True"
| "is_build Warn_single_gpu = True"
| "is_build (LoadDataset b s) = True"
| "is_build (Import_module s) = True"
| "is_build (Construct m) = True"
| "is_build (Ema_init g c) = True"
| "is_build (DataParallel m d) = True"
| "is_build (Patch_replication_callback m) = True"
| "is_build (Make_optimizer ob) = True"
| "is_build ev = False"

text \<open>The statistics an evaluation pass scores against, and the loop variant a training
  step belongs to.\<close>

fun evaluation_stats :: "event \<Rightarrow> (tensor option \<times> tensor option) option" where
  "evaluation_stats (Evaluation n mu sigma) = Some (mu, sigma)"
| "evaluation_stats ev = None"

fun variant_of :: "event \<Rightarrow> loop_variant option" where
  "variant_of (D_STEP v n) = Some v"
| "variant_of (G_STEP v n) = Some v"
| "variant_of ev = None"

definition of_variant :: "loop_variant \<Rightarrow> event \<Rightarrow> bool" where
  "of_variant v ev = (variant_of ev = Some v)"

text \<open>An evaluation pass that scores against statistics other than the given ones.\<close>

definition uses_other_stats :: "tensor option \<Rightarrow> tensor option \<Rightarrow> event \<Rightarrow> bool" where
  "uses_other_stats mu sigma ev =
     (case evaluation_stats ev of None \<Rightarrow> False | Some s \<Rightarrow> s \<noteq> (mu, sigma))"

fun is_generator_construct :: "event \<Rightarrow> bool" where
  "is_generator_construct (Construct m) = (net_class m = Generator)"
| "is_generator_construct ev = False"

text \<open>Two worlds that agree on everything except what \<open>glob\<close> and the preparer
  return.\<close>

definition same_world :: "env \<Rightarrow> env \<Rightarrow> bool" where
  "same_world env' env =
     (device_count env' = device_count env \<and> current_device env' = current_device env
      \<and> make_run_name env' = make_run_name env \<and> module_exists env' = module_exists env
      \<and> path_exists env' = path_exists env
      \<and> make_checkpoint_dir env' = make_checkpoint_dir env
      \<and> files env' = files env \<and> out_dims env' = out_dims env
      \<and> improved env' = improved env)"

subsection \<open>A concrete world and a concrete call\<close>

text \<open>One device, the architecture module \<open>models.resnet\<close>, and a checkpoint folder
  \<open>ck\<close> holding one "current" file each for G, D and G_ema, written at step 7 by a run
  with seed 0.\<close>

definition demo_checkpoint :: checkpoint where
  "demo_checkpoint =
     \<lparr>ck_state_dict = 11, ck_optimizer = 12, ck_seed = 0, ck_run_name = ''old-run'',
      ck_step = 7, ck_best_step = 5, ck_best_fid = Some 13,
      ck_best_fid_checkpoint_path = Some ''ck/best''\<rparr>"

definition demo_glob :: "string \<Rightarrow> string list" where
  "demo_glob pat =
     (if pat = ''ck/model=G-current-weights-step*.pth''
        then [''ck/model=G-current-weights-step=7.pth'']
      else if pat = ''ck/model=D-current-weights-step*.pth''
        then [''ck/model=D-current-weights-step=7.pth'']
      else if pat = ''ck/model=G_ema-current-weights-step*.pth''
        then [''ck/model=G_ema-current-weights-step=7.pth'']
      else [])"

definition demo_files :: "string \<Rightarrow> checkpoint option" where
  "demo_files path =
     (if path = ''ck/model=G-current-weights-step=7.pth'' then Some demo_checkpoint
      else if path = ''ck/model=D-current-weights-step=7.pth'' then Some demo_checkpoint
      else if path = ''ck/model=G_ema-current-weights-step=7.pth'' then Some demo_checkpoint
      else None)"

definition demo_env :: env where
  "demo_env =
     \<lparr>device_count = 1, current_device = Inr 0,
      make_run_name = (\<lambda>fmt framework phase. framework @ ''-'' @ phase),
      module_exists = (\<lambda>m. m = ''models.resnet''),
      path_exists = (\<lambda>p. p = ''ck''),
      make_checkpoint_dir = (\<lambda>folder rn. ''ck''),
      glob = demo_glob, files = demo_files, out_dims = [64],
      prepare_inception_moments_eval_dataset = (\<lambda>g m. (21, 22, 23, 24)),
      improved = (\<lambda>n. False)\<rparr>"

definition demo_train_config :: train_config where
  "demo_train_config =
     \<lparr>tc_checkpoint_folder = None, tc_eval = True, tc_train = True,
      tc_linear_evaluation = False, tc_k_nearest_neighbor = False,
      tc_interpolation = False, tc_nrow = 4, tc_ncol = 4, tc_step_linear_eval = 10,
      tc_print_every = 1, tc_save_every = 2\<rparr>"

definition demo_args :: args where
  "demo_args =
     \<lparr>seed = 0, config_path = ''./configs/CIFAR10/ContraGAN.json'', load_current = True,
      type4eval_dataset = ''test'', architecture = ''resnet'',
      conditional_strategy = ''ContraGAN'', hypersphere_dim = 512, img_size = 32,
      optimizer = ''Adam'', batch_size = 4, total_step = 3, adv_loss = ''hinge'',
      g_init = init_scheme ''ortho'', d_init = init_scheme ''ortho'', ema = True,
      synchronized_bn = False, train_config = demo_train_config\<rparr>"


text \<open>The same call as a resume from the folder \<open>ck\<close>, and a world in which two files
  match the Generator's pattern, the second written at step 9 by a run with seed 5.\<close>

definition demo_resume_args :: args where
  "demo_resume_args =
     demo_args\<lparr>train_config := demo_train_config\<lparr>tc_checkpoint_folder := Some ''ck''\<rparr>\<rparr>"

definition other_checkpoint :: checkpoint where
  "other_checkpoint =
     \<lparr>ck_state_dict = 31, ck_optimizer = 32, ck_seed = 5, ck_run_name = ''other-run'',
      ck_step = 9, ck_best_step = 9, ck_best_fid = Some 33,
      ck_best_fid_checkpoint_path = Some ''ck/other''\<rparr>"

definition ambiguous_env :: env where
  "ambiguous_env =
     demo_env
       \<lparr>glob := (\<lambda>pat. if pat = ''ck/model=G-current-weights-step*.pth''
                        then [''ck/model=G-current-weights-step=7.pth'',
                              ''ck/model=G-current-weights-step=9.pth'']
                        else demo_glob pat),
        files := (\<lambda>path. if path = ''ck/model=G-current-weights-step=9.pth''
                          then Some other_checkpoint else demo_files path)\<rparr>"

definition two_gpu_env :: env where
  "two_gpu_env = demo_env\<lparr>device_count := 2\<rparr>"

text \<open>The Trainer that the concrete call constructs in the concrete world.\<close>

definition demo_trainer :: trainer where
  "demo_trainer =
     \<lparr>tr_run_name = ''ContraGAN-train'', tr_best_step = 0, tr_n_gpus = 1,
      tr_gen_model =
        \<lparr>net_class = Generator, net_synchronized_bn = False,
         net_initialize = init_scheme ''ortho'', net_state_dict = None,
         net_output_device = None, net_patched = False\<rparr>,
      tr_dis_model =
        \<lparr>net_class = Discriminator, net_synchronized_bn = False,
         net_initialize = init_scheme ''ortho'', net_state_dict = None,
         net_output_device = None, net_patched = False\<rparr>,
      tr_inception_model =
        Some \<lparr>net_class = InceptionV3, net_synchronized_bn = False,
              net_initialize = init_False, net_state_dict = None,
              net_output_device = Some 0, net_patched = False\<rparr>,
      tr_Gen_copy =
        Some \<lparr>net_class = Generator, net_synchronized_bn = False,
              net_initialize = init_False, net_state_dict = None,
              net_output_device = None, net_patched = False\<rparr>,
      tr_linear_model = None,
      tr_Gen_ema =
        Some \<lparr>source =
                \<lparr>net_class = Generator, net_synchronized_bn = False,
                 net_initialize = init_scheme ''ortho'', net_state_dict = None,
                 net_output_device = None, net_patched = False\<rparr>,
              target =
                \<lparr>net_class = Generator, net_synchronized_bn = False,
                 net_initialize = init_False, net_state_dict = None,
                 net_output_device = None, net_patched = False\<rparr>\<rparr>,
      tr_conditional_strategy = ''ContraGAN'',
      tr_G_optimizer = \<lparr>optim_family = Adam, optim_params = Generator, optim_state = None\<rparr>,
      tr_D_optimizer =
        \<lparr>optim_family = Adam, optim_params = Discriminator, optim_state = None\<rparr>,
      tr_L_optimizer = None, tr_batch_size = 4, tr_total_step = 3,
      tr_G_loss = loss_hinge_gen, tr_D_loss = loss_hinge_dis, tr_ema = True,
      tr_default_device = 0, tr_second_device = 0, tr_print_every = 1, tr_save_every = 2,
      tr_checkpoint_dir = ''ck'', tr_evaluate = True, tr_mu = Some 21, tr_sigma = Some 22,
      tr_best_fid = None, tr_best_fid_checkpoint_path = None\<rparr>"

text \<open>The concrete world with another quality score and deviation from the preparer.\<close>

definition rescored_env :: env where
  "rescored_env =
     demo_env\<lparr>prepare_inception_moments_eval_dataset := (\<lambda>g m. (21, 22, 99, 98))\<rparr>"

text \<open>The local variables of the concrete call after line 135, and the resume with
  another seed than the checkpoints'.\<close>

definition demo_frame :: frame where
  "demo_frame =
     \<lparr>n_gpus = 1, default_device = 0, second_device = 0, step = 0, best_step = 0,
      best_fid = None, best_fid_checkpoint_path = None, run_name = ''ContraGAN-train'',
      Gen = tr_gen_model demo_trainer, Dis = tr_dis_model demo_trainer,
      Gen_copy = tr_Gen_copy demo_trainer, Gen_ema = tr_Gen_ema demo_trainer,
      G_optimizer = tr_G_optimizer demo_trainer, D_optimizer = tr_D_optimizer demo_trainer\<rparr>"

definition mismatch_args :: args where
  "mismatch_args = demo_resume_args\<lparr>seed := 1\<rparr>"

section \<open>Properties\<close>

subsection \<open>Sequencing\<close>

lemma trace_of_bind:
  "trace_of (io_bind m f) =
     trace_of m @ (case outcome m of Inl e \<Rightarrow> [] | Inr x \<Rightarrow> trace_of (f x))"
  by (simp add: io_bind_def trace_of_def outcome_def split: sum.splits)

lemma outcome_bind:
  "outcome (io_bind m f) = (case outcome m of Inl e \<Rightarrow> Inl e | Inr x \<Rightarrow> outcome (f x))"
  by (simp add: io_bind_def outcome_def split: sum.splits)

lemma io_basic [simp]:
  "trace_of (io_return x) = []" "outcome (io_return x) = Inr x"
  "trace_of (io_raise e) = []" "outcome (io_raise e) = Inl e"
  "trace_of (emit ev) = [ev]" "outcome (emit ev) = Inr ()"
  "trace_of (io_lift r) = []" "outcome (io_lift r) = r"
  by (simp_all add: io_return_def io_raise_def emit_def io_lift_def trace_of_def outcome_def)

lemma io_pair [simp]: "trace_of (t, r) = t" "outcome (t, r) = r"
  by (simp_all add: trace_of_def outcome_def)

lemma bind_Inl: "outcome m = Inl e \<Longrightarrow> io_bind m f = (trace_of m, Inl e)"
  by (simp add: io_bind_def outcome_def trace_of_def)

lemma bind_Inr:
  "outcome m = Inr x \<Longrightarrow> io_bind m f = (trace_of m @ trace_of (f x), outcome (f x))"
  by (simp add: io_bind_def outcome_def trace_of_def)

lemma io_when_outcome: "outcome m = Inr () \<Longrightarrow> outcome (io_when b m) = Inr ()"
  by (simp add: io_when_def)

subsection \<open>Computations that make no call of a given kind\<close>

lemma quiet_basic [simp]:
  "quiet P (io_return x)" "quiet P (io_raise e)" "quiet P (io_lift r)"
  "quiet P (io_assert b msg)"
  by (simp_all add: quiet_def io_assert_def)

lemma quiet_emit [simp]: "quiet P (emit ev) = (\<not> P ev)"
  by (simp add: quiet_def)

lemma quiet_bind: "quiet P m \<Longrightarrow> (\<And>x. quiet P (f x)) \<Longrightarrow> quiet P (io_bind m f)"
  by (simp add: quiet_def trace_of_bind split: sum.splits)

lemma quiet_when: "quiet P m \<Longrightarrow> quiet P (io_when b m)"
  by (simp add: io_when_def)

lemma quiet_on_some: "(\<And>v. quiet P (f v)) \<Longrightarrow> quiet P (on_some x f)"
  by (simp add: on_some_def split: option.splits)

lemma quiet_if: "quiet P m \<Longrightarrow> quiet P m' \<Longrightarrow> quiet P (if b then m else m')"
  by simp

lemma quiet_case_prod: "(\<And>x y. quiet P (f x y)) \<Longrightarrow> quiet P (case p of (x, y) \<Rightarrow> f x y)"
  by (simp split: prod.splits)

lemmas quiet_intros = quiet_bind quiet_when quiet_on_some quiet_if quiet_case_prod

lemma quiet_failed: "outcome m = Inl e \<Longrightarrow> quiet P m \<Longrightarrow> quiet P (io_bind m f)"
  by (simp add: bind_Inl quiet_def)

subsection \<open>The calls of each part of \<open>train_framework\<close>\<close>

lemma select_devices_quiet:
  "\<not> P (Fix_all_seed (seed a)) \<Longrightarrow> \<not> P Warn_single_gpu \<Longrightarrow> quiet P (select_devices env a)"
  unfolding select_devices_def by (intro quiet_intros) simp_all

lemma name_run_quiet:
  "(\<And>b s. \<not> P (LoadDataset b s)) \<Longrightarrow> quiet P (name_run env a)"
  unfolding name_run_def by (intro quiet_intros) simp_all

lemma construct_quiet: "(\<And>m. \<not> P (Construct m)) \<Longrightarrow> quiet P (construct c b i)"
  unfolding construct_def by (intro quiet_intros) simp_all

lemma data_parallel_quiet:
  "(\<And>m d. \<not> P (DataParallel m d)) \<Longrightarrow> quiet P (data_parallel m d)"
  unfolding data_parallel_def by (intro quiet_intros) simp_all

lemma patch_quiet:
  "(\<And>m. \<not> P (Patch_replication_callback m)) \<Longrightarrow> quiet P (patch_replication_callback m)"
  unfolding patch_replication_callback_def by (intro quiet_intros) simp_all

lemma new_optim_quiet: "(\<And>ob. \<not> P (Make_optimizer ob)) \<Longrightarrow> quiet P (new_optim f c)"
  unfolding new_optim_def by (intro quiet_intros) simp_all

lemma glob_first_quiet: "(\<And>p. \<not> P (Glob p)) \<Longrightarrow> quiet P (glob_first env pat)"
  unfolding glob_first_def by (intro quiet_intros) simp_all

lemma unpack_quiet [simp]: "quiet P (unpack6 r)" "quiet P (unpack8 r)" "quiet P (as_model r)"
  by (simp_all add: unpack6_def unpack8_def as_model_def split: loaded.splits)

lemma load_checkpoint_quiet:
  "(\<And>m ob p me e. \<not> P (Load_checkpoint m ob p me e)) \<Longrightarrow>
   quiet P (load_checkpoint env model ob filename metric e)"
  unfolding load_checkpoint_def
  by (intro quiet_intros) (simp_all add: on_some_def split: option.splits)

lemma build_models_quiet:
  "(\<And>ev. is_build ev \<Longrightarrow> \<not> P ev) \<Longrightarrow> quiet P (build_models env a n d)"
  unfolding build_models_def
  by (intro quiet_intros construct_quiet data_parallel_quiet patch_quiet) simp_all

lemma make_optimizers_quiet:
  "(\<And>ev. is_build ev \<Longrightarrow> \<not> P ev) \<Longrightarrow> quiet P (make_optimizers a)"
  unfolding make_optimizers_def optim_pair_def
  by (intro quiet_intros new_optim_quiet) simp_all

lemma initialise_quiet:
  "(\<And>ev. is_build ev \<Longrightarrow> \<not> P ev) \<Longrightarrow> quiet P (initialise env a)"
  unfolding initialise_def
  by (intro quiet_intros select_devices_quiet name_run_quiet build_models_quiet
        make_optimizers_quiet)
     simp_all

lemma restore_quiet:
  "(\<And>ev. is_early ev \<Longrightarrow> \<not> P ev) \<Longrightarrow> quiet P (restore env a folder fr)"
  unfolding restore_def restore_ema_def
  by (intro quiet_intros glob_first_quiet load_checkpoint_quiet) simp_all

lemma resume_quiet:
  "(\<And>ev. is_early ev \<Longrightarrow> \<not> P ev) \<Longrightarrow> quiet P (resume env a fr)"
  unfolding resume_def
  by (cases "tc_checkpoint_folder (train_config a)")
     (auto intro!: quiet_intros restore_quiet)

lemma linear_probe_quiet:
  "(\<And>ev. is_build ev \<Longrightarrow> \<not> P ev) \<Longrightarrow> quiet P (linear_probe env a fr)"
  unfolding linear_probe_def last_out_dim_def
  by (intro quiet_intros construct_quiet data_parallel_quiet patch_quiet new_optim_quiet)
     simp_all

lemma reference_statistics_quiet:
  "(\<And>ev. is_build ev \<Longrightarrow> \<not> P ev) \<Longrightarrow> (\<And>g m. \<not> P (Prepare_inception_moments g m)) \<Longrightarrow>
   quiet P (reference_statistics env a fr)"
  unfolding reference_statistics_def
  by (intro quiet_intros construct_quiet data_parallel_quiet)
     (simp_all split: prod.splits)

lemma make_trainer_quiet:
  "(\<And>tr. \<not> P (Trainer_init tr)) \<Longrightarrow> quiet P (make_trainer a fr cd mu sg im lm lo)"
  unfolding make_trainer_def by (intro quiet_intros) simp_all

lemma build_is_early: "is_build ev \<Longrightarrow> is_early ev"
  by (cases ev) simp_all

lemma prelude_quiet:
  "(\<And>ev. is_early ev \<Longrightarrow> \<not> P ev) \<Longrightarrow> (\<And>g m. \<not> P (Prepare_inception_moments g m)) \<Longrightarrow>
   quiet P (prelude env a)"
  unfolding prelude_def
  by (intro quiet_intros initialise_quiet resume_quiet reference_statistics_quiet
        linear_probe_quiet)
     (simp_all add: build_is_early)

lemma launch_quiet:
  "(\<And>ev. is_early ev \<Longrightarrow> \<not> P ev) \<Longrightarrow> (\<And>g m. \<not> P (Prepare_inception_moments g m)) \<Longrightarrow>
   (\<And>tr. \<not> P (Trainer_init tr)) \<Longrightarrow> quiet P (launch env a)"
  unfolding launch_def
  by (intro quiet_intros prelude_quiet make_trainer_quiet) simp_all

lemma early_not_late:
  "is_early ev \<Longrightarrow> \<not> is_late ev"
  "is_early ev \<Longrightarrow> \<not> is_training ev"
  "is_early ev \<Longrightarrow> \<not> is_loop_call ev"
  "is_early ev \<Longrightarrow> \<not> is_invoke_evaluation ev"
  "is_early ev \<Longrightarrow> \<not> is_prepare ev"
  "is_early ev \<Longrightarrow> \<not> is_trainer_init ev"
  "is_early ev \<Longrightarrow> \<not> is_d_step ev"
  "is_build ev \<Longrightarrow> \<not> is_late ev"
  "is_build ev \<Longrightarrow> \<not> is_training ev"
  "is_build ev \<Longrightarrow> \<not> is_loop_call ev"
  "is_build ev \<Longrightarrow> \<not> is_invoke_evaluation ev"
  "is_build ev \<Longrightarrow> \<not> is_prepare ev"
  "is_build ev \<Longrightarrow> \<not> is_trainer_init ev"
  "is_build ev \<Longrightarrow> \<not> is_d_step ev"
  "is_build ev \<Longrightarrow> \<not> is_load ev"
  "is_build ev \<Longrightarrow> \<not> is_ema_load ev"
  by (cases ev; simp)+

lemma launch_no_training:
  "quiet is_late (launch env a)" "quiet is_training (launch env a)"
  "quiet is_loop_call (launch env a)" "quiet is_invoke_evaluation (launch env a)"
  "quiet is_d_step (launch env a)"
  by (rule launch_quiet; simp add: early_not_late)+

subsection \<open>The training loop\<close>

declare train_loop.simps [simp del]

lemma evaluation_outcome [simp]: "outcome (evaluation env tr n) = Inr (improved env n)"
  by (simp add: evaluation_def outcome_bind)

lemma checkpoint_gate_outcome [simp]: "outcome (checkpoint_gate env tr n) = Inr ()"
  by (simp add: checkpoint_gate_def outcome_bind io_when_def)

lemma train_loop_outcome: "outcome (train_loop env tr v s t) = Inr (max s t)"
proof (induction env tr v s t rule: train_loop.induct)
  case (1 env tr v s t)
  show ?case
  proof (cases "s < t")
    case True
    with 1 have "outcome (train_loop env tr v (s + 1) t) = Inr (max (s + 1) t)"
      by simp
    with True show ?thesis
      by (subst train_loop.simps) (simp add: outcome_bind io_when_outcome)
  next
    case False
    then show ?thesis
      by (subst train_loop.simps) simp
  qed
qed

lemma evaluation_quiet:
  "\<not> P (Evaluation n (tr_mu tr) (tr_sigma tr)) \<Longrightarrow> quiet P (evaluation env tr n)"
  unfolding evaluation_def by (intro quiet_intros) simp_all

lemma checkpoint_gate_quiet:
  "(\<And>s. \<not> P (Save_checkpoint s n)) \<Longrightarrow> \<not> P (Evaluation n (tr_mu tr) (tr_sigma tr)) \<Longrightarrow>
   quiet P (checkpoint_gate env tr n)"
  unfolding checkpoint_gate_def by (intro quiet_intros evaluation_quiet) simp_all

lemma train_loop_quiet:
  assumes "\<And>n. \<not> P (D_STEP v n)" and "\<And>n. \<not> P (G_STEP v n)"
    and "\<And>n. \<not> P (Log_metrics n)" and "\<And>s n. \<not> P (Save_checkpoint s n)"
    and "\<And>n. \<not> P (Evaluation n (tr_mu tr) (tr_sigma tr))"
  shows "quiet P (train_loop env tr v s t)"
  using assms
proof (induction env tr v s t rule: train_loop.induct)
  case (1 env tr v s t)
  show ?case
  proof (cases "s < t")
    case True
    with 1 have "quiet P (train_loop env tr v (s + 1) t)"
      by simp
    with True "1.prems" show ?thesis
      by (subst train_loop.simps)
         (auto intro!: quiet_intros checkpoint_gate_quiet)
  next
    case False
    then show ?thesis
      by (subst train_loop.simps) simp
  qed
qed

lemma train_loop_d_steps:
  "length (filter is_d_step (trace_of (train_loop env tr v s t))) = nat (t - s)"
proof (induction env tr v s t rule: train_loop.induct)
  case (1 env tr v s t)
  show ?case
  proof (cases "s < t")
    case True
    have g: "filter is_d_step (trace_of (checkpoint_gate env tr (s + 1))) = []"
      using checkpoint_gate_quiet [of is_d_step "s + 1" tr env] by (simp add: quiet_def)
    from True 1 have "length (filter is_d_step (trace_of (train_loop env tr v (s + 1) t)))
        = nat (t - (s + 1))"
      by simp
    with True g show ?thesis
      by (subst train_loop.simps)
         (simp add: trace_of_bind io_when_def io_when_outcome)
  next
    case False
    then show ?thesis
      by (subst train_loop.simps) simp
  qed
qed

subsection \<open>A run that stops in the device check\<close>

lemma stops_in_select_devices:
  assumes "outcome (select_devices env a) = Inl e"
  shows "train_framework env a = (trace_of (select_devices env a), Inl e)"
proof -
  have "initialise env a = (trace_of (select_devices env a), Inl e)"
    unfolding initialise_def using assms by (rule bind_Inl)
  then have "prelude env a = (trace_of (select_devices env a), Inl e)"
    unfolding prelude_def by (simp add: bind_Inl)
  then have "launch env a = (trace_of (select_devices env a), Inl e)"
    unfolding launch_def by (simp add: bind_Inl)
  then show ?thesis
    unfolding train_framework_def by (simp add: bind_Inl)
qed

lemma select_devices_trace_failed:
  "outcome (select_devices env a) = Inl e \<Longrightarrow>
   trace_of (select_devices env a) = [Fix_all_seed (seed a)]"
  by (auto simp: select_devices_def trace_of_bind outcome_bind io_assert_def io_when_def
           split: sum.splits if_splits)

lemma select_devices_rejects:
  "batch_size a mod device_count env \<noteq> 0 \<Longrightarrow>
   outcome (select_devices env a) =
     (case current_device env of
        Inl e \<Rightarrow> Inl e
      | Inr d \<Rightarrow>
          if device_count env = 0 then Inl ZeroDivisionError
          else Inl (AssertionError ''batch_size should be divided by the number of gpus ''))"
  by (simp add: select_devices_def outcome_bind py_mod_def io_assert_def split: sum.splits)

subsection \<open>The shape of a run\<close>

lemma launch_ok_elim:
  assumes "outcome (launch env a) = Inr (tr, st)"
  obtains fr fr1 cd mu sg im lm lo where
    "outcome (initialise env a) = Inr fr"
    "outcome (resume env a fr) = Inr (fr1, cd)"
    "outcome (reference_statistics env a fr1) = Inr (mu, sg, im)"
    "outcome (linear_probe env a fr1) = Inr (lm, lo)"
    "outcome (make_trainer a fr1 cd mu sg im lm lo) = Inr tr"
    "st = step fr1"
    "trace_of (launch env a) =
       trace_of (initialise env a) @ trace_of (resume env a fr)
       @ trace_of (reference_statistics env a fr1) @ trace_of (linear_probe env a fr1)
       @ trace_of (make_trainer a fr1 cd mu sg im lm lo)"
  using assms unfolding launch_def prelude_def
  by (auto simp: outcome_bind trace_of_bind split: sum.splits prod.splits)

lemma train_dispatch_outcome:
  "outcome (train_dispatch env a tr st) =
     Inr (if tc_train (train_config a) then max st (total_step a) else st)"
  by (simp add: train_dispatch_def outcome_bind run_def run_ours_def train_loop_outcome)

lemma after_training_outcome: "outcome (after_training env a tr st) = Inr ()"
  by (simp add: after_training_def outcome_bind io_when_def Nearest_Neighbor_call_def
        linear_interpolation_def linear_classification_def)

lemma train_framework_failed:
  "outcome (launch env a) = Inl e \<Longrightarrow> train_framework env a = (trace_of (launch env a), Inl e)"
  unfolding train_framework_def by (rule bind_Inl)

lemma train_framework_ok:
  assumes "outcome (launch env a) = Inr (tr, st)"
  shows "train_framework env a =
     (trace_of (launch env a) @ trace_of (train_dispatch env a tr st)
        @ trace_of (after_training env a tr
             (if tc_train (train_config a) then max st (total_step a) else st)),
      Inr ())"
  unfolding train_framework_def
  by (simp add: bind_Inr [OF assms] trace_of_bind outcome_bind train_dispatch_outcome
        after_training_outcome)

lemma train_dispatch_loop_calls:
  "filter is_loop_call (trace_of (train_dispatch env a tr st)) =
     (if tc_train (train_config a) then
        [if conditional_strategy a \<in> {''ContraGAN'', ''Proxy_NCA_GAN'', ''XT_Xent_GAN''}
         then Invoke_run_ours st (total_step a) else Invoke_run st (total_step a)]
      else [])"
proof -
  have q: "filter is_loop_call (trace_of (train_loop env tr v st (total_step a))) = []" for v
    using train_loop_quiet [of is_loop_call v tr env st "total_step a"]
    by (simp add: quiet_def)
  show ?thesis
    by (simp add: train_dispatch_def trace_of_bind run_def run_ours_def q)
qed

lemma after_training_quiet:
  assumes "\<And>n. \<not> P (Invoke_evaluation n)"
    and "\<And>n. \<not> P (Evaluation n (tr_mu tr) (tr_sigma tr))"
    and "\<And>r c. \<not> P (Nearest_Neighbor r c)"
    and "\<And>r c z y. \<not> P (Linear_interpolation r c z y)"
    and "\<And>n. \<not> P (Linear_classification n)"
  shows "quiet P (after_training env a tr st)"
  unfolding after_training_def Nearest_Neighbor_call_def linear_interpolation_def
    linear_classification_def
  by (intro quiet_intros evaluation_quiet) (simp_all add: assms)

lemma train_dispatch_quiet:
  assumes "\<And>c t. \<not> P (Invoke_run_ours c t)" and "\<And>c t. \<not> P (Invoke_run c t)"
    and "\<And>v n. \<not> P (D_STEP v n)" and "\<And>v n. \<not> P (G_STEP v n)"
    and "\<And>n. \<not> P (Log_metrics n)" and "\<And>s n. \<not> P (Save_checkpoint s n)"
    and "\<And>n. \<not> P (Evaluation n (tr_mu tr) (tr_sigma tr))"
  shows "quiet P (train_dispatch env a tr st)"
  unfolding train_dispatch_def run_def run_ours_def
  by (intro quiet_intros train_loop_quiet) (simp_all add: assms)

lemma train_dispatch_variant:
  "quiet (of_variant (if conditional_strategy a \<in> {''ContraGAN'', ''Proxy_NCA_GAN'', ''XT_Xent_GAN''}
                      then Standard else Contrastive))
     (train_dispatch env a tr st)"
  unfolding train_dispatch_def run_def run_ours_def
  by (auto intro!: quiet_intros train_loop_quiet simp: of_variant_def)

lemma no_training_without_train:
  "\<not> tc_train (train_config a) \<Longrightarrow> quiet is_training (train_dispatch env a tr st)"
  by (simp add: train_dispatch_def)

subsection \<open>The concrete call\<close>

lemma demo_launch: "outcome (launch demo_env demo_args) = Inr (demo_trainer, 0)"
  by code_simp

subsection \<open>Constructing the Trainer\<close>

lemma make_trainer_outcome:
  "outcome (make_trainer a fr cd mu sg im lm lo) = Inr tr \<Longrightarrow>
     G_loss (adv_loss a) = Some (tr_G_loss tr) \<and> D_loss (adv_loss a) = Some (tr_D_loss tr)
   \<and> tr_mu tr = mu \<and> tr_sigma tr = sg \<and> tr_gen_model tr = Gen fr \<and> tr_dis_model tr = Dis fr
   \<and> tr_Gen_copy tr = Gen_copy fr \<and> tr_Gen_ema tr = Gen_ema fr
   \<and> tr_best_step tr = best_step fr \<and> tr_inception_model tr = im
   \<and> tr_evaluate tr = tc_eval (train_config a)
   \<and> trace_of (make_trainer a fr cd mu sg im lm lo) = [Trainer_init tr]"
  by (auto simp: make_trainer_def outcome_bind trace_of_bind py_getitem_def
           split: option.splits sum.splits)

lemma make_trainer_unknown_loss:
  "adv_loss a \<notin> {''vanilla'', ''hinge'', ''wasserstein''} \<Longrightarrow>
   make_trainer a fr cd mu sg im lm lo = ([], Inl (KeyError (adv_loss a)))"
  by (simp add: make_trainer_def G_loss_def py_getitem_def bind_Inl)

lemma loss_tables:
  "G_loss k = Some g \<Longrightarrow> D_loss k = Some d \<Longrightarrow>
     (k = ''vanilla'' \<and> g = loss_dcgan_gen \<and> d = loss_dcgan_dis)
   \<or> (k = ''hinge'' \<and> g = loss_hinge_gen \<and> d = loss_hinge_dis)
   \<or> (k = ''wasserstein'' \<and> g = loss_wgan_gen \<and> d = loss_wgan_dis)"
  by (auto simp: G_loss_def D_loss_def split: if_splits)

lemma launch_unknown_loss:
  assumes "adv_loss a \<notin> {''vanilla'', ''hinge'', ''wasserstein''}"
  shows "failed (launch env a)"
    and "outcome (prelude env a) = Inr x \<Longrightarrow> outcome (launch env a) = Inl (KeyError (adv_loss a))"
  unfolding launch_def failed_def
  by (auto simp: outcome_bind make_trainer_unknown_loss [OF assms] split: sum.splits prod.splits)

subsection \<open>The reference statistics\<close>

lemma reference_statistics_result:
  "outcome (reference_statistics env a fr) =
     Inr (if tc_eval (train_config a) then
            (Some (fst (prepare_inception_moments_eval_dataset env (Gen fr) (type4eval_dataset a))),
             Some (fst (snd (prepare_inception_moments_eval_dataset env (Gen fr)
                               (type4eval_dataset a)))),
             Some \<lparr>net_class = InceptionV3, net_synchronized_bn = False,
                   net_initialize = init_False, net_state_dict = None,
                   net_output_device = Some (second_device fr), net_patched = False\<rparr>)
          else (None, None, None))"
  by (simp add: reference_statistics_def outcome_bind construct_def data_parallel_def
           split: prod.splits)

lemma reference_statistics_prepare:
  "filter is_prepare (trace_of (reference_statistics env a fr)) =
     (if tc_eval (train_config a)
      then [Prepare_inception_moments (Gen fr) (type4eval_dataset a)] else [])"
  by (simp add: reference_statistics_def trace_of_bind outcome_bind construct_def
        data_parallel_def split: prod.splits)

lemma prelude_prepare:
  "filter is_prepare (trace_of (prelude env a)) =
     (case outcome (initialise env a) of
        Inl e \<Rightarrow> []
      | Inr fr \<Rightarrow>
          (case outcome (resume env a fr) of
             Inl e \<Rightarrow> []
           | Inr (fr1, cd) \<Rightarrow>
               if tc_eval (train_config a)
               then [Prepare_inception_moments (Gen fr1) (type4eval_dataset a)] else []))"
proof -
  have 1: "filter is_prepare (trace_of (initialise env a)) = []"
    using initialise_quiet [of is_prepare env a] by (simp add: early_not_late quiet_def)
  have 2: "filter is_prepare (trace_of (resume env a fr)) = []" for fr
    using resume_quiet [of is_prepare env a fr] by (simp add: early_not_late quiet_def)
  have 3: "filter is_prepare (trace_of (linear_probe env a fr)) = []" for fr
    using linear_probe_quiet [of is_prepare env a fr] by (simp add: early_not_late quiet_def)
  show ?thesis
    unfolding prelude_def
    by (simp add: trace_of_bind 1 2 3 reference_statistics_prepare reference_statistics_result
          split: sum.splits prod.splits)
qed

lemma launch_prepare:
  "filter is_prepare (trace_of (launch env a)) = filter is_prepare (trace_of (prelude env a))"
proof -
  have "filter is_prepare (trace_of (make_trainer a fr cd mu sg im lm lo)) = []"
    for fr cd mu sg im lm lo
    using make_trainer_quiet [of is_prepare a fr cd mu sg im lm lo] by (simp add: quiet_def)
  then show ?thesis
    unfolding launch_def
    by (simp add: trace_of_bind split: sum.splits prod.splits)
qed

lemma after_launch_no_prepare:
  "quiet is_prepare (train_dispatch env a tr st)" "quiet is_prepare (after_training env a tr st)"
  by (rule train_dispatch_quiet after_training_quiet; simp)+

lemma train_framework_trace:
  "trace_of (train_framework env a) =
     trace_of (launch env a) @
     (case outcome (launch env a) of
        Inl e \<Rightarrow> []
      | Inr (tr, st) \<Rightarrow>
          trace_of (train_dispatch env a tr st)
          @ trace_of (after_training env a tr
               (if tc_train (train_config a) then max st (total_step a) else st)))"
  by (cases "outcome (launch env a)")
     (auto simp: train_framework_failed train_framework_ok)

lemma train_framework_prepare:
  "filter is_prepare (trace_of (train_framework env a))
     = filter is_prepare (trace_of (prelude env a))"
  using after_launch_no_prepare [of env a]
  by (simp add: train_framework_trace launch_prepare quiet_def split: sum.splits prod.splits)

lemma launch_ok_stats:
  assumes "outcome (launch env a) = Inr (tr, st)"
  shows "filter is_prepare (trace_of (prelude env a)) =
           (if tc_eval (train_config a)
            then [Prepare_inception_moments (tr_gen_model tr) (type4eval_dataset a)] else [])"
    and "tc_eval (train_config a) \<Longrightarrow>
           tr_mu tr = Some (fst (prepare_inception_moments_eval_dataset env (tr_gen_model tr)
                                   (type4eval_dataset a)))
         \<and> tr_sigma tr = Some (fst (snd (prepare_inception_moments_eval_dataset env
                                             (tr_gen_model tr) (type4eval_dataset a))))"
proof -
  from assms obtain fr fr1 cd mu sg im lm lo where
    i: "outcome (initialise env a) = Inr fr"
    and r: "outcome (resume env a fr) = Inr (fr1, cd)"
    and s: "outcome (reference_statistics env a fr1) = Inr (mu, sg, im)"
    and mk: "outcome (make_trainer a fr1 cd mu sg im lm lo) = Inr tr"
    by (rule launch_ok_elim)
  note m = make_trainer_outcome [OF mk]
  show "filter is_prepare (trace_of (prelude env a)) =
           (if tc_eval (train_config a)
            then [Prepare_inception_moments (tr_gen_model tr) (type4eval_dataset a)] else [])"
    using m by (simp add: prelude_prepare i r)
  show "tr_mu tr = Some (fst (prepare_inception_moments_eval_dataset env (tr_gen_model tr)
                                   (type4eval_dataset a)))
         \<and> tr_sigma tr = Some (fst (snd (prepare_inception_moments_eval_dataset env
                                             (tr_gen_model tr) (type4eval_dataset a))))"
    if "tc_eval (train_config a)"
    using m s that by (simp add: reference_statistics_result)
qed

subsection \<open>What a run depends on\<close>

lemma train_loop_same:
  "improved env' = improved env \<Longrightarrow> train_loop env' tr v s t = train_loop env tr v s t"
proof (induction env tr v s t rule: train_loop.induct)
  case (1 env tr v s t)
  have g: "checkpoint_gate env' tr n = checkpoint_gate env tr n" for n
    using "1.prems" by (simp add: checkpoint_gate_def evaluation_def)
  show ?case
  proof (cases "s < t")
    case True
    with 1 have "train_loop env' tr v (s + 1) t = train_loop env tr v (s + 1) t"
      by simp
    with True show ?thesis
      by (simp add: train_loop.simps [of env' tr v s t] train_loop.simps [of env tr v s t] g)
  next
    case False
    then show ?thesis
      by (simp add: train_loop.simps [of env' tr v s t] train_loop.simps [of env tr v s t])
  qed
qed

lemma initialise_same: "same_world env' env \<Longrightarrow> initialise env' a = initialise env a"
  by (simp add: same_world_def initialise_def select_devices_def name_run_def build_models_def
        cong: if_cong)

lemma restore_same:
  assumes "same_world env' env"
    and "\<And>pat. py_index (glob env' pat) 0 = py_index (glob env pat) 0"
  shows "restore env' a folder fr = restore env a folder fr"
proof -
  have g: "glob_first env' pat = glob_first env pat" for pat
    by (simp add: glob_first_def assms(2))
  have l: "load_checkpoint env' m ob p me e = load_checkpoint env m ob p me e" for m ob p me e
    using assms(1) by (simp add: load_checkpoint_def same_world_def)
  show ?thesis
    using assms(1) by (simp add: restore_def restore_ema_def g l same_world_def cong: if_cong)
qed

lemma resume_same:
  assumes "same_world env' env"
    and "\<And>pat. py_index (glob env' pat) 0 = py_index (glob env pat) 0"
  shows "resume env' a fr = resume env a fr"
  using assms(1)
  by (simp add: resume_def restore_same [OF assms] same_world_def split: option.splits)

lemma reference_statistics_same:
  assumes "\<And>g m. fst (prepare_inception_moments_eval_dataset env' g m)
                  = fst (prepare_inception_moments_eval_dataset env g m)"
    and "\<And>g m. fst (snd (prepare_inception_moments_eval_dataset env' g m))
                  = fst (snd (prepare_inception_moments_eval_dataset env g m))"
  shows "reference_statistics env' a fr = reference_statistics env a fr"
proof -
  obtain mu' sg' s' d' where
    e': "prepare_inception_moments_eval_dataset env' (Gen fr) (type4eval_dataset a)
           = (mu', sg', s', d')"
    by (cases "prepare_inception_moments_eval_dataset env' (Gen fr) (type4eval_dataset a)")
  obtain mu sg s d where
    e: "prepare_inception_moments_eval_dataset env (Gen fr) (type4eval_dataset a)
           = (mu, sg, s, d)"
    by (cases "prepare_inception_moments_eval_dataset env (Gen fr) (type4eval_dataset a)")
  from assms [of "Gen fr" "type4eval_dataset a"] have "mu' = mu" "sg' = sg"
    by (simp_all add: e e')
  then show ?thesis
    by (simp add: reference_statistics_def e e' cong: if_cong)
qed

lemma linear_probe_same: "same_world env' env \<Longrightarrow> linear_probe env' a fr = linear_probe env a fr"
  by (simp add: same_world_def linear_probe_def last_out_dim_def cong: if_cong)

lemma train_framework_same:
  assumes w: "same_world env' env"
    and g: "\<And>pat. py_index (glob env' pat) 0 = py_index (glob env pat) 0"
    and p1: "\<And>g m. fst (prepare_inception_moments_eval_dataset env' g m)
                  = fst (prepare_inception_moments_eval_dataset env g m)"
    and p2: "\<And>g m. fst (snd (prepare_inception_moments_eval_dataset env' g m))
                  = fst (snd (prepare_inception_moments_eval_dataset env g m))"
  shows "train_framework env' a = train_framework env a"
proof -
  have i: "improved env' = improved env"
    using w by (simp add: same_world_def)
  have "prelude env' a = prelude env a"
    by (simp add: prelude_def initialise_same [OF w] resume_same [OF w g]
          reference_statistics_same [OF p1 p2] linear_probe_same [OF w])
  then have l: "launch env' a = launch env a"
    by (simp add: launch_def)
  have d: "train_dispatch env' a tr st = train_dispatch env a tr st" for tr st
    by (simp add: train_dispatch_def run_def run_ours_def train_loop_same [OF i] cong: if_cong)
  have f: "after_training env' a tr st = after_training env a tr st" for tr st
    by (simp add: after_training_def evaluation_def i cong: if_cong)
  show ?thesis
    by (simp add: train_framework_def l d f)
qed

subsection \<open>Restoring the checkpoints\<close>

lemma glob_first_simps [simp]:
  "outcome (glob_first env pat) = py_index (glob env pat) 0"
  "trace_of (glob_first env pat) = [Glob pat]"
  by (simp_all add: glob_first_def outcome_bind trace_of_bind)

lemma load6:
  "io_bind (load_checkpoint env m (Some ob) p False False) unpack6 =
     ([Load_checkpoint m (Some ob) p False False],
      case files env p of
        None \<Rightarrow> Inl (FileNotFoundError p)
      | Some ck \<Rightarrow>
          Inr (m\<lparr>net_state_dict := Some (ck_state_dict ck)\<rparr>,
               ob\<lparr>optim_state := Some (ck_optimizer ck)\<rparr>,
               ck_seed ck, ck_run_name ck, ck_step ck, ck_best_step ck))"
  by (simp add: load_checkpoint_def io_bind_def emit_def on_some_def unpack6_def io_return_def
        io_raise_def split: option.splits)

lemma load8:
  "io_bind (load_checkpoint env m (Some ob) p True False) unpack8 =
     ([Load_checkpoint m (Some ob) p True False],
      case files env p of
        None \<Rightarrow> Inl (FileNotFoundError p)
      | Some ck \<Rightarrow>
          Inr (m\<lparr>net_state_dict := Some (ck_state_dict ck)\<rparr>,
               ob\<lparr>optim_state := Some (ck_optimizer ck)\<rparr>,
               ck_seed ck, ck_run_name ck, ck_step ck, ck_best_step ck,
               ck_best_fid ck, ck_best_fid_checkpoint_path ck))"
  by (simp add: load_checkpoint_def io_bind_def emit_def on_some_def unpack8_def io_return_def
        io_raise_def split: option.splits)

lemma load_ema:
  "io_bind (load_checkpoint env m ob p me True) as_model =
     ([Load_checkpoint m ob p me True],
      case files env p of
        None \<Rightarrow> Inl (FileNotFoundError p)
      | Some ck \<Rightarrow> Inr (m\<lparr>net_state_dict := Some (ck_state_dict ck)\<rparr>))"
  by (simp add: load_checkpoint_def io_bind_def emit_def as_model_def io_return_def
        io_raise_def split: option.splits)

lemma restore_ema_ok:
  assumes "outcome (restore_ema env a cd fr g) = Inr (gc2, ge2)" and "ema a"
  obtains gc ge pe cke where
    "Gen_copy fr = Some gc" "Gen_ema fr = Some ge"
    "py_index (glob env (checkpoint_pattern cd ''G_ema''
        (if load_current a then ''current'' else ''best''))) 0 = Inr pe"
    "files env pe = Some cke"
    "gc2 = Some (gc\<lparr>net_state_dict := Some (ck_state_dict cke)\<rparr>)"
    "ge2 = Some (ge\<lparr>source := g,
                       target := gc\<lparr>net_state_dict := Some (ck_state_dict cke)\<rparr>\<rparr>)"
    "filter is_ema_load (trace_of (restore_ema env a cd fr g))
       = [Load_checkpoint gc None pe False True]"
proof -
  from assms obtain pe where
    pe: "py_index (glob env (checkpoint_pattern cd ''G_ema''
        (if load_current a then ''current'' else ''best''))) 0 = Inr pe"
    by (cases "py_index (glob env (checkpoint_pattern cd ''G_ema''
        (if load_current a then ''current'' else ''best''))) 0")
       (simp_all add: restore_ema_def outcome_bind)
  from assms pe obtain gc where gc: "Gen_copy fr = Some gc"
    by (cases "Gen_copy fr") (simp_all add: restore_ema_def outcome_bind on_some_def)
  from assms pe gc obtain cke where cke: "files env pe = Some cke"
    by (cases "files env pe")
       (simp_all add: restore_ema_def outcome_bind on_some_def load_ema)
  from assms pe gc cke obtain ge where ge: "Gen_ema fr = Some ge"
    by (cases "Gen_ema fr")
       (simp_all add: restore_ema_def outcome_bind on_some_def load_ema)
  from assms have r: "gc2 = Some (gc\<lparr>net_state_dict := Some (ck_state_dict cke)\<rparr>)"
    "ge2 = Some (ge\<lparr>source := g,
                       target := gc\<lparr>net_state_dict := Some (ck_state_dict cke)\<rparr>\<rparr>)"
    by (simp_all add: restore_ema_def outcome_bind on_some_def load_ema pe gc cke ge)
  from assms have t: "filter is_ema_load (trace_of (restore_ema env a cd fr g))
       = [Load_checkpoint gc None pe False True]"
    by (simp add: restore_ema_def outcome_bind trace_of_bind on_some_def load_ema pe gc cke ge)
  from gc ge pe cke r t show ?thesis
    by (rule that)
qed

lemma restore_ema_off:
  "\<not> ema a \<Longrightarrow> restore_ema env a cd fr g = ([], Inr (Gen_copy fr, Gen_ema fr))"
  by (simp add: restore_ema_def io_return_def)


lemma restore_ok:
  assumes "outcome (restore env a folder fr) = Inr (fr1, ts, cd)"
  obtains pg pd ckg ckd gc2 ge2 where
    "path_exists env folder"
    "cd = make_checkpoint_dir env (Some folder) (run_name fr)"
    "py_index (glob env (checkpoint_pattern cd ''G''
        (if load_current a then ''current'' else ''best''))) 0 = Inr pg"
    "py_index (glob env (checkpoint_pattern cd ''D''
        (if load_current a then ''current'' else ''best''))) 0 = Inr pd"
    "files env pg = Some ckg" "files env pd = Some ckd"
    "ts = ck_seed ckd"
    "fr1 = fr\<lparr>Gen := (Gen fr)\<lparr>net_state_dict := Some (ck_state_dict ckg)\<rparr>,
              G_optimizer := (G_optimizer fr)\<lparr>optim_state := Some (ck_optimizer ckg)\<rparr>,
              Dis := (Dis fr)\<lparr>net_state_dict := Some (ck_state_dict ckd)\<rparr>,
              D_optimizer := (D_optimizer fr)\<lparr>optim_state := Some (ck_optimizer ckd)\<rparr>,
              run_name := ck_run_name ckd, step := ck_step ckd,
              best_step := ck_best_step ckd, best_fid := ck_best_fid ckd,
              best_fid_checkpoint_path := ck_best_fid_checkpoint_path ckd,
              Gen_copy := gc2, Gen_ema := ge2\<rparr>"
    "outcome (restore_ema env a cd fr ((Gen fr)\<lparr>net_state_dict := Some (ck_state_dict ckg)\<rparr>))
       = Inr (gc2, ge2)"
    "trace_of (restore env a folder fr) =
       [Make_checkpoint_dir (Some folder) (run_name fr),
        Glob (checkpoint_pattern cd ''G'' (if load_current a then ''current'' else ''best'')),
        Glob (checkpoint_pattern cd ''D'' (if load_current a then ''current'' else ''best'')),
        Load_checkpoint (Gen fr) (Some (G_optimizer fr)) pg False False,
        Load_checkpoint (Dis fr) (Some (D_optimizer fr)) pd True False]
       @ trace_of (restore_ema env a cd fr
                     ((Gen fr)\<lparr>net_state_dict := Some (ck_state_dict ckg)\<rparr>))"
proof -
  let ?cd = "make_checkpoint_dir env (Some folder) (run_name fr)"
  let ?slot = "if load_current a then ''current'' else ''best''"
  note defs = restore_def outcome_bind trace_of_bind load6 load8
  from assms have ex: "path_exists env folder"
    by (cases "path_exists env folder") (simp_all add: defs)
  from assms ex obtain pg where
    pg: "py_index (glob env (checkpoint_pattern ?cd ''G'' ?slot)) 0 = Inr pg"
    by (cases "py_index (glob env (checkpoint_pattern ?cd ''G'' ?slot)) 0")
       (simp_all add: defs)
  from assms ex pg obtain pd where
    pd: "py_index (glob env (checkpoint_pattern ?cd ''D'' ?slot)) 0 = Inr pd"
    by (cases "py_index (glob env (checkpoint_pattern ?cd ''D'' ?slot)) 0")
       (simp_all add: defs)
  from assms ex pg pd obtain ckg where ckg: "files env pg = Some ckg"
    by (cases "files env pg") (simp_all add: defs)
  from assms ex pg pd ckg obtain ckd where ckd: "files env pd = Some ckd"
    by (cases "files env pd") (simp_all add: defs)
  from assms ex pg pd ckg ckd obtain gc2 ge2 where
    em: "outcome (restore_ema env a ?cd fr
           ((Gen fr)\<lparr>net_state_dict := Some (ck_state_dict ckg)\<rparr>)) = Inr (gc2, ge2)"
    by (cases "outcome (restore_ema env a ?cd fr
           ((Gen fr)\<lparr>net_state_dict := Some (ck_state_dict ckg)\<rparr>))")
       (auto simp: defs)
  from assms have res: "cd = ?cd" "ts = ck_seed ckd"
    "fr1 = fr\<lparr>Gen := (Gen fr)\<lparr>net_state_dict := Some (ck_state_dict ckg)\<rparr>,
              G_optimizer := (G_optimizer fr)\<lparr>optim_state := Some (ck_optimizer ckg)\<rparr>,
              Dis := (Dis fr)\<lparr>net_state_dict := Some (ck_state_dict ckd)\<rparr>,
              D_optimizer := (D_optimizer fr)\<lparr>optim_state := Some (ck_optimizer ckd)\<rparr>,
              run_name := ck_run_name ckd, step := ck_step ckd,
              best_step := ck_best_step ckd, best_fid := ck_best_fid ckd,
              best_fid_checkpoint_path := ck_best_fid_checkpoint_path ckd,
              Gen_copy := gc2, Gen_ema := ge2\<rparr>"
    by (simp_all add: defs ex pg pd ckg ckd em)
  have tr: "trace_of (restore env a folder fr) =
       [Make_checkpoint_dir (Some folder) (run_name fr),
        Glob (checkpoint_pattern ?cd ''G'' ?slot),
        Glob (checkpoint_pattern ?cd ''D'' ?slot),
        Load_checkpoint (Gen fr) (Some (G_optimizer fr)) pg False False,
        Load_checkpoint (Dis fr) (Some (D_optimizer fr)) pd True False]
       @ trace_of (restore_ema env a ?cd fr
                     ((Gen fr)\<lparr>net_state_dict := Some (ck_state_dict ckg)\<rparr>))"
    by (simp add: defs ex pg pd ckg ckd em)
  note c = res(1) [symmetric]
  show ?thesis
    using ex res(1) pg [unfolded c] pd [unfolded c] ckg ckd res(2,3) em [unfolded c]
      tr [unfolded c]
    by (rule that)
qed

subsection \<open>Resuming\<close>

lemma resume_restored:
  assumes "tc_checkpoint_folder (train_config a) = Some folder"
  shows "outcome (resume env a fr) = Inr (fr1, cd) \<longleftrightarrow>
           outcome (restore env a folder fr) = Inr (fr1, seed a, cd)"
    and "trace_of (resume env a fr) = trace_of (restore env a folder fr)"
    and "outcome (restore env a folder fr) = Inr (fr1, ts, cd) \<Longrightarrow> ts \<noteq> seed a \<Longrightarrow>
           outcome (resume env a fr)
             = Inl (AssertionError ''seed for sampling random numbers should be same!'')"
  by (auto simp: resume_def assms outcome_bind trace_of_bind io_assert_def
           split: sum.splits prod.splits if_splits)

lemma resume_fresh:
  "tc_checkpoint_folder (train_config a) = None \<Longrightarrow>
   outcome (resume env a fr) = Inr (fr, make_checkpoint_dir env None (run_name fr))"
  by (simp add: resume_def outcome_bind)

lemma prelude_stops_in_resume:
  assumes "outcome (initialise env a) = Inr fr" and "outcome (resume env a fr) = Inl e"
  shows "train_framework env a = (trace_of (initialise env a) @ trace_of (resume env a fr), Inl e)"
    and "quiet is_trainer_init (train_framework env a)"
    and "quiet is_training (train_framework env a)"
proof -
  have p: "prelude env a = (trace_of (initialise env a) @ trace_of (resume env a fr), Inl e)"
    unfolding prelude_def using assms by (simp add: bind_Inr bind_Inl)
  then have "launch env a = (trace_of (initialise env a) @ trace_of (resume env a fr), Inl e)"
    unfolding launch_def by (simp add: bind_Inl)
  then show tf: "train_framework env a
      = (trace_of (initialise env a) @ trace_of (resume env a fr), Inl e)"
    by (simp add: train_framework_failed)
  have "quiet is_trainer_init (prelude env a)" "quiet is_training (prelude env a)"
    by (rule prelude_quiet; simp add: early_not_late)+
  then show "quiet is_trainer_init (train_framework env a)"
    "quiet is_training (train_framework env a)"
    by (simp_all add: tf p quiet_def)
qed

lemma loop_call_needs_launch:
  assumes "\<not> quiet is_loop_call (train_framework env a)"
  obtains tr st where "outcome (launch env a) = Inr (tr, st)"
proof (cases "outcome (launch env a)")
  case (Inl e)
  with assms launch_no_training(3) [of env a] show ?thesis
    by (simp add: train_framework_failed quiet_def)
next
  case (Inr x)
  then show ?thesis
    using that by (cases x) simp
qed

subsection \<open>The concrete resume with another seed\<close>

lemma mismatch_initialise: "outcome (initialise demo_env mismatch_args) = Inr demo_frame"
  by code_simp

lemma mismatch_restore:
  "(case outcome (restore demo_env mismatch_args ''ck'' demo_frame) of
      Inl e \<Rightarrow> False
    | Inr (fr1, ts, cd) \<Rightarrow> ts = 0 \<and> cd = ''ck'')"
  by code_simp

subsection \<open>The step counter\<close>

lemma initialise_counters:
  "outcome (initialise env a) = Inr fr \<Longrightarrow> step fr = 0 \<and> best_step fr = 0"
  unfolding initialise_def
  by (auto simp: outcome_bind split: sum.splits prod.splits)

lemma restore_ok_counters:
  assumes "outcome (restore env a folder fr) = Inr (fr1, ts, cd)"
  obtains pd ckd where
    "py_index (glob env (checkpoint_pattern cd ''D''
        (if load_current a then ''current'' else ''best''))) 0 = Inr pd"
    "files env pd = Some ckd" "ts = ck_seed ckd"
    "step fr1 = ck_step ckd" "best_step fr1 = ck_best_step ckd"
  by (rule restore_ok [OF assms], rule that) (assumption, assumption, simp_all)

lemma launch_step:
  assumes "outcome (launch env a) = Inr (tr, st)"
  shows "tc_checkpoint_folder (train_config a) = None \<Longrightarrow> st = 0"
    and "tc_checkpoint_folder (train_config a) = Some folder \<Longrightarrow>
          \<exists>cd pd ckd.
             py_index (glob env (checkpoint_pattern cd ''D''
                (if load_current a then ''current'' else ''best''))) 0 = Inr pd
           \<and> files env pd = Some ckd \<and> st = ck_step ckd \<and> tr_best_step tr = ck_best_step ckd"
proof -
  from assms obtain fr fr1 cd mu sg im lm lo where
    i: "outcome (initialise env a) = Inr fr"
    and r: "outcome (resume env a fr) = Inr (fr1, cd)"
    and mk: "outcome (make_trainer a fr1 cd mu sg im lm lo) = Inr tr"
    and st: "st = step fr1"
    by (rule launch_ok_elim)
  show "st = 0" if "tc_checkpoint_folder (train_config a) = None"
    using resume_fresh [OF that, of env fr] r initialise_counters [OF i] st by simp
  show "\<exists>cd pd ckd.
             py_index (glob env (checkpoint_pattern cd ''D''
                (if load_current a then ''current'' else ''best''))) 0 = Inr pd
           \<and> files env pd = Some ckd \<and> st = ck_step ckd \<and> tr_best_step tr = ck_best_step ckd"
    if f: "tc_checkpoint_folder (train_config a) = Some folder"
  proof -
    from r have "outcome (restore env a folder fr) = Inr (fr1, seed a, cd)"
      by (simp add: resume_restored(1) [OF f])
    then obtain pd ckd where
      "py_index (glob env (checkpoint_pattern cd ''D''
        (if load_current a then ''current'' else ''best''))) 0 = Inr pd"
      "files env pd = Some ckd" "step fr1 = ck_step ckd" "best_step fr1 = ck_best_step ckd"
      by (rule restore_ok_counters)
    with st make_trainer_outcome [OF mk] have
      "py_index (glob env (checkpoint_pattern cd ''D''
                (if load_current a then ''current'' else ''best''))) 0 = Inr pd
           \<and> files env pd = Some ckd \<and> st = ck_step ckd \<and> tr_best_step tr = ck_best_step ckd"
      by simp
    then show ?thesis
      by blast
  qed
qed

lemma after_training_invoke_evaluation:
  "filter is_invoke_evaluation (trace_of (after_training env a tr s)) =
     (if tc_eval (train_config a) then [Invoke_evaluation s] else [])"
  by (simp add: after_training_def trace_of_bind outcome_bind evaluation_def io_when_def
        Nearest_Neighbor_call_def linear_interpolation_def linear_classification_def)

lemma demo_resume_launch:
  "(case outcome (launch demo_env demo_resume_args) of
      Inl e \<Rightarrow> False
    | Inr (tr, st) \<Rightarrow> st = 7)"
  by code_simp

subsection \<open>Claim C3: a batch size the device count does not divide\<close>

text \<open>
  C3. Whenever the batch size is not divisible by the number of devices, the run fails,
  and it fails before any network is constructed, before the Trainer is constructed and
  before any training: the trace has no constructor call and no training call. When the
  device query returns and at least one device is counted, the failure is the assertion
  of line 54. (With no device counted the failure is the division error of claim C10;
  when the device query itself raises, it is that exception.)
\<close>

theorem indivisible_batch_rejected:
  assumes "\<not> device_count env dvd batch_size a"
  shows "failed (train_framework env a)
       \<and> quiet is_construct (train_framework env a)
       \<and> quiet is_trainer_init (train_framework env a)
       \<and> quiet is_training (train_framework env a)
       \<and> (device_count env \<noteq> 0 \<and> current_device env = Inr d \<longrightarrow>
            outcome (train_framework env a)
              = Inl (AssertionError ''batch_size should be divided by the number of gpus ''))"
proof -
  from assms have nz: "batch_size a mod device_count env \<noteq> 0"
    by (simp add: mod_eq_0_iff_dvd)
  define e where "e = (case current_device env of
        Inl e \<Rightarrow> e
      | Inr d \<Rightarrow>
          if device_count env = 0 then ZeroDivisionError
          else AssertionError ''batch_size should be divided by the number of gpus '')"
  have e: "outcome (select_devices env a) = Inl e"
    by (simp add: select_devices_rejects [OF nz] e_def split: sum.splits)
  then have tf: "train_framework env a = ([Fix_all_seed (seed a)], Inl e)"
    by (simp add: stops_in_select_devices select_devices_trace_failed)
  have "device_count env \<noteq> 0 \<and> current_device env = Inr d \<longrightarrow>
       e = AssertionError ''batch_size should be divided by the number of gpus ''"
    by (simp add: e_def)
  then show ?thesis
    by (simp add: tf failed_def quiet_def)
qed

text \<open>The scenario of the specification: batch size 5 on 2 devices.\<close>

theorem indivisible_batch_rejected_witness:
  "\<not> device_count (demo_env\<lparr>device_count := 2\<rparr>) dvd batch_size (demo_args\<lparr>batch_size := 5\<rparr>)
   \<and> outcome (train_framework (demo_env\<lparr>device_count := 2\<rparr>) (demo_args\<lparr>batch_size := 5\<rparr>))
       = Inl (AssertionError ''batch_size should be divided by the number of gpus '')
   \<and> quiet is_construct (train_framework (demo_env\<lparr>device_count := 2\<rparr>) (demo_args\<lparr>batch_size := 5\<rparr>))"
  using indivisible_batch_rejected
    [of "demo_env\<lparr>device_count := 2\<rparr>" "demo_args\<lparr>batch_size := 5\<rparr>" 0]
  by (simp add: demo_env_def demo_args_def)

subsection \<open>Claim C10: no device\<close>

text \<open>
  C10. The divisibility check of line 54 computes \<open>batch_size % n_gpus\<close>. Provided the
  device query of line 52 returns: with a device count of zero the run stops right after
  \<open>fix_all_seed\<close> with ZeroDivisionError, not with the assertion's diagnostic; with a
  device count other than zero the check never raises ZeroDivisionError, and it raises the
  assertion's diagnostic exactly when the remainder is not zero.
\<close>

theorem zero_devices_division_error:
  assumes "current_device env = Inr d"
  shows "(device_count env = 0 \<longrightarrow>
            train_framework env a = ([Fix_all_seed (seed a)], Inl ZeroDivisionError))
       \<and> (device_count env \<noteq> 0 \<longrightarrow>
            outcome (select_devices env a) \<noteq> Inl ZeroDivisionError
          \<and> (outcome (select_devices env a)
                = Inl (AssertionError ''batch_size should be divided by the number of gpus '')
              \<longleftrightarrow> batch_size a mod device_count env \<noteq> 0))"
proof (intro conjI impI)
  assume z: "device_count env = 0"
  with assms have "outcome (select_devices env a) = Inl ZeroDivisionError"
    by (simp add: select_devices_def outcome_bind py_mod_def)
  then show "train_framework env a = ([Fix_all_seed (seed a)], Inl ZeroDivisionError)"
    by (simp add: stops_in_select_devices select_devices_trace_failed)
next
  assume "device_count env \<noteq> 0"
  with assms show "outcome (select_devices env a) \<noteq> Inl ZeroDivisionError"
    by (simp add: select_devices_def outcome_bind py_mod_def io_assert_def io_when_def)
next
  assume "device_count env \<noteq> 0"
  with assms show "outcome (select_devices env a)
                = Inl (AssertionError ''batch_size should be divided by the number of gpus '')
              \<longleftrightarrow> batch_size a mod device_count env \<noteq> 0"
    by (simp add: select_devices_def outcome_bind py_mod_def io_assert_def io_when_def)
qed

theorem zero_devices_division_error_witness:
  "current_device (demo_env\<lparr>device_count := 0\<rparr>) = Inr 0
   \<and> train_framework (demo_env\<lparr>device_count := 0\<rparr>) demo_args
       = ([Fix_all_seed 0], Inl ZeroDivisionError)"
  using zero_devices_division_error [of "demo_env\<lparr>device_count := 0\<rparr>" 0 demo_args]
  by (simp add: demo_env_def demo_args_def)

subsection \<open>Claim C6: which loop runs\<close>

text \<open>
  C6. With training disabled no training call is made: neither loop is invoked and no
  training step is taken. With training enabled, a run that gets as far as line 264 (the
  Trainer has been constructed as \<open>tr\<close>, the step counter stands at \<open>st\<close>) invokes exactly
  one loop, once: \<open>run_ours\<close> when the conditional strategy is one of ContraGAN,
  Proxy_NCA_GAN, XT_Xent_GAN, and \<open>run\<close> for every other strategy; and no training step
  of the other variant is taken.
\<close>

theorem one_training_loop:
  "(\<not> tc_train (train_config a) \<longrightarrow> quiet is_training (train_framework env a))
   \<and> (tc_train (train_config a) \<and> outcome (launch env a) = Inr (tr, st) \<longrightarrow>
        filter is_loop_call (trace_of (train_framework env a)) =
          [if conditional_strategy a \<in> {''ContraGAN'', ''Proxy_NCA_GAN'', ''XT_Xent_GAN''}
           then Invoke_run_ours st (total_step a) else Invoke_run st (total_step a)]
        \<and> quiet (of_variant
                    (if conditional_strategy a \<in> {''ContraGAN'', ''Proxy_NCA_GAN'', ''XT_Xent_GAN''}
                     then Standard else Contrastive))
            (train_framework env a))"
proof (intro conjI impI)
  assume nt: "\<not> tc_train (train_config a)"
  show "quiet is_training (train_framework env a)"
  proof (cases "outcome (launch env a)")
    case (Inl e)
    then show ?thesis
      using launch_no_training(2) [of env a]
      by (simp add: train_framework_failed quiet_def)
  next
    case (Inr x)
    obtain tr' st' where x: "x = (tr', st')" by (cases x)
    have "quiet is_training (after_training env a tr' s)" for s
      by (rule after_training_quiet) simp_all
    then show ?thesis
      using launch_no_training(2) [of env a] no_training_without_train [OF nt, of env tr' st']
        Inr x
      by (simp add: train_framework_ok quiet_def)
  qed
next
  assume h: "tc_train (train_config a) \<and> outcome (launch env a) = Inr (tr, st)"
  have l: "filter is_loop_call (trace_of (after_training env a tr s)) = []" for s
    using after_training_quiet [of is_loop_call tr env a s] by (simp add: quiet_def)
  show "filter is_loop_call (trace_of (train_framework env a)) =
          [if conditional_strategy a \<in> {''ContraGAN'', ''Proxy_NCA_GAN'', ''XT_Xent_GAN''}
           then Invoke_run_ours st (total_step a) else Invoke_run st (total_step a)]"
    using h launch_no_training(3) [of env a]
    by (simp add: train_framework_ok train_dispatch_loop_calls l quiet_def)
next
  assume h: "tc_train (train_config a) \<and> outcome (launch env a) = Inr (tr, st)"
  let ?v = "if conditional_strategy a \<in> {''ContraGAN'', ''Proxy_NCA_GAN'', ''XT_Xent_GAN''}
                     then Standard else Contrastive"
  have 1: "quiet (of_variant ?v) (launch env a)"
    by (rule launch_quiet) (auto simp: of_variant_def elim: is_early.elims)
  have 2: "quiet (of_variant ?v) (after_training env a tr s)" for s
    by (rule after_training_quiet) (simp_all add: of_variant_def)
  show "quiet (of_variant ?v) (train_framework env a)"
    using h 1 2 train_dispatch_variant [of a env tr st]
    by (simp add: train_framework_ok quiet_def)
qed

theorem one_training_loop_witness:
  "tc_train (train_config demo_args)
   \<and> outcome (launch demo_env demo_args) = Inr (demo_trainer, 0)
   \<and> filter is_loop_call (trace_of (train_framework demo_env demo_args))
       = [Invoke_run_ours 0 3]"
  using one_training_loop [of demo_args demo_env demo_trainer 0] demo_launch
  by (simp add: demo_args_def demo_train_config_def)

subsection \<open>Claim C4: selecting the adversarial loss\<close>

text \<open>
  C4. If \<open>adv_loss\<close> is not one of \<open>vanilla\<close>, \<open>hinge\<close>, \<open>wasserstein\<close>, the run fails,
  the Trainer is never constructed and no training call is made; when everything before
  the \<open>Trainer(...)\<close> call (lines 48 to 191) succeeds, the failure is the KeyError of the
  lookup \<open>G_loss[adv_loss]\<close> on line 225. If the Trainer is constructed, it is constructed
  once, and the two loss functions it receives are the pair registered under the key:
  \<open>loss_dcgan_gen\<close> and \<open>loss_dcgan_dis\<close> for \<open>vanilla\<close>, \<open>loss_hinge_gen\<close> and
  \<open>loss_hinge_dis\<close> for \<open>hinge\<close>, \<open>loss_wgan_gen\<close> and \<open>loss_wgan_dis\<close> for
  \<open>wasserstein\<close>.
\<close>

theorem adversarial_loss_selection:
  "(adv_loss a \<notin> {''vanilla'', ''hinge'', ''wasserstein''} \<longrightarrow>
      failed (train_framework env a)
    \<and> quiet is_trainer_init (train_framework env a)
    \<and> quiet is_training (train_framework env a)
    \<and> (outcome (prelude env a) = Inr x \<longrightarrow>
         outcome (train_framework env a) = Inl (KeyError (adv_loss a))))
   \<and> (outcome (launch env a) = Inr (tr, st) \<longrightarrow>
        filter is_trainer_init (trace_of (train_framework env a)) = [Trainer_init tr]
      \<and> ((adv_loss a = ''vanilla'' \<and> tr_G_loss tr = loss_dcgan_gen \<and> tr_D_loss tr = loss_dcgan_dis)
         \<or> (adv_loss a = ''hinge'' \<and> tr_G_loss tr = loss_hinge_gen \<and> tr_D_loss tr = loss_hinge_dis)
         \<or> (adv_loss a = ''wasserstein'' \<and> tr_G_loss tr = loss_wgan_gen
              \<and> tr_D_loss tr = loss_wgan_dis)))"
proof (intro conjI impI)
  assume u: "adv_loss a \<notin> {''vanilla'', ''hinge'', ''wasserstein''}"
  from launch_unknown_loss(1) [OF u, of env]
  obtain e where e: "outcome (launch env a) = Inl e"
    by (auto simp: failed_def split: sum.splits)
  have tf: "train_framework env a = (trace_of (launch env a), Inl e)"
    using e by (rule train_framework_failed)
  show "failed (train_framework env a)"
    by (simp add: tf failed_def)
  have "quiet is_trainer_init (prelude env a)"
    by (rule prelude_quiet) (simp_all add: early_not_late)
  then have "quiet is_trainer_init (launch env a)"
    unfolding launch_def
    by (simp add: make_trainer_unknown_loss [OF u] quiet_def trace_of_bind bind_Inl
          split: sum.splits prod.splits)
  then show "quiet is_trainer_init (train_framework env a)"
    by (simp add: tf quiet_def)
  show "quiet is_training (train_framework env a)"
    using launch_no_training(2) [of env a] by (simp add: tf quiet_def)
  show "outcome (train_framework env a) = Inl (KeyError (adv_loss a))"
    if "outcome (prelude env a) = Inr x"
    using launch_unknown_loss(2) [OF u that] e by (simp add: tf)
next
  assume ok: "outcome (launch env a) = Inr (tr, st)"
  from ok obtain fr fr1 cd mu sg im lm lo where
    mk: "outcome (make_trainer a fr1 cd mu sg im lm lo) = Inr tr"
    and tr: "trace_of (launch env a) =
       trace_of (initialise env a) @ trace_of (resume env a fr)
       @ trace_of (reference_statistics env a fr1) @ trace_of (linear_probe env a fr1)
       @ trace_of (make_trainer a fr1 cd mu sg im lm lo)"
    by (rule launch_ok_elim)
  have q: "quiet is_trainer_init (initialise env a)" "quiet is_trainer_init (resume env a fr)"
    "quiet is_trainer_init (reference_statistics env a fr1)"
    "quiet is_trainer_init (linear_probe env a fr1)"
    by (rule initialise_quiet resume_quiet reference_statistics_quiet linear_probe_quiet;
        simp add: early_not_late)+
  have d: "quiet is_trainer_init (train_dispatch env a tr st)"
    by (rule train_dispatch_quiet) simp_all
  have f: "quiet is_trainer_init (after_training env a tr s)" for s
    by (rule after_training_quiet) simp_all
  show "filter is_trainer_init (trace_of (train_framework env a)) = [Trainer_init tr]"
    using q d f make_trainer_outcome [OF mk]
    by (simp add: train_framework_ok [OF ok] tr quiet_def)
  show "(adv_loss a = ''vanilla'' \<and> tr_G_loss tr = loss_dcgan_gen \<and> tr_D_loss tr = loss_dcgan_dis)
         \<or> (adv_loss a = ''hinge'' \<and> tr_G_loss tr = loss_hinge_gen \<and> tr_D_loss tr = loss_hinge_dis)
         \<or> (adv_loss a = ''wasserstein'' \<and> tr_G_loss tr = loss_wgan_gen
              \<and> tr_D_loss tr = loss_wgan_dis)"
    using make_trainer_outcome [OF mk] loss_tables by blast
qed

theorem adversarial_loss_selection_witness:
  "''lsgan'' \<notin> {''vanilla'', ''hinge'', ''wasserstein''}
   \<and> \<not> failed (prelude demo_env (demo_args\<lparr>adv_loss := ''lsgan''\<rparr>))
   \<and> outcome (train_framework demo_env (demo_args\<lparr>adv_loss := ''lsgan''\<rparr>))
       = Inl (KeyError ''lsgan'')
   \<and> outcome (launch demo_env demo_args) = Inr (demo_trainer, 0)
   \<and> adv_loss demo_args = ''hinge''
   \<and> tr_G_loss demo_trainer = loss_hinge_gen \<and> tr_D_loss demo_trainer = loss_hinge_dis"
proof -
  have p: "\<not> failed (prelude demo_env (demo_args\<lparr>adv_loss := ''lsgan''\<rparr>))"
    by code_simp
  then obtain x where x: "outcome (prelude demo_env (demo_args\<lparr>adv_loss := ''lsgan''\<rparr>)) = Inr x"
    by (auto simp: failed_def split: sum.splits)
  have 1: "outcome (train_framework demo_env (demo_args\<lparr>adv_loss := ''lsgan''\<rparr>))
       = Inl (KeyError ''lsgan'')"
    using adversarial_loss_selection
      [where a = "demo_args\<lparr>adv_loss := ''lsgan''\<rparr>" and env = demo_env and x = x] x
    by simp
  have 2: "adv_loss demo_args = ''hinge''
     \<and> tr_G_loss demo_trainer = loss_hinge_gen \<and> tr_D_loss demo_trainer = loss_hinge_dis"
    using adversarial_loss_selection
      [where a = demo_args and env = demo_env and tr = demo_trainer and st = 0] demo_launch
    by (simp add: demo_args_def)
  show ?thesis
    using p 1 2 demo_launch by simp
qed

subsection \<open>Claim C5: the reference statistics are computed once\<close>

text \<open>
  C5, as amended. In every run the preparer is invoked at most once, and not at all when
  evaluation is disabled. When evaluation is enabled, a run that gets as far as the
  Trainer's construction invokes the preparer exactly once, and that invocation lies in
  the part of the run before the Trainer is constructed, which holds no training or
  evaluation call; what follows (the loop and the passes after it) does not invoke it
  again, however many evaluations there are. The mean and the covariance of that one
  result are what the Trainer receives as \<open>mu\<close> and \<open>sigma\<close>, and every evaluation call
  of the run scores against exactly these. The quality score and its deviation, which the
  same invocation returns, go no further: the run is the same whatever their values.
\<close>

theorem reference_statistics_once:
  "length (filter is_prepare (trace_of (train_framework env a))) \<le> 1
   \<and> (\<not> tc_eval (train_config a) \<longrightarrow> quiet is_prepare (train_framework env a))
   \<and> train_framework
         (env\<lparr>prepare_inception_moments_eval_dataset :=
                 (\<lambda>g m. (fst (prepare_inception_moments_eval_dataset env g m),
                         fst (snd (prepare_inception_moments_eval_dataset env g m)),
                         score, deviation))\<rparr>) a
       = train_framework env a
   \<and> (tc_eval (train_config a) \<and> outcome (launch env a) = Inr (tr, st) \<longrightarrow>
        filter is_prepare (trace_of (train_framework env a))
          = [Prepare_inception_moments (tr_gen_model tr) (type4eval_dataset a)]
      \<and> filter is_prepare (trace_of (launch env a))
          = [Prepare_inception_moments (tr_gen_model tr) (type4eval_dataset a)]
      \<and> quiet is_late (launch env a)
      \<and> trace_of (train_framework env a)
          = trace_of (launch env a) @ trace_of (train_dispatch env a tr st)
            @ trace_of (after_training env a tr
                 (if tc_train (train_config a) then max st (total_step a) else st))
      \<and> quiet is_prepare (train_dispatch env a tr st)
      \<and> quiet is_prepare (after_training env a tr
                 (if tc_train (train_config a) then max st (total_step a) else st))
      \<and> tr_mu tr = Some (fst (prepare_inception_moments_eval_dataset env (tr_gen_model tr)
                                (type4eval_dataset a)))
      \<and> tr_sigma tr = Some (fst (snd (prepare_inception_moments_eval_dataset env
                                          (tr_gen_model tr) (type4eval_dataset a))))
      \<and> quiet (uses_other_stats (tr_mu tr) (tr_sigma tr)) (train_framework env a))"
proof (intro conjI impI)
  show "length (filter is_prepare (trace_of (train_framework env a))) \<le> 1"
    by (simp add: train_framework_prepare prelude_prepare split: sum.splits prod.splits)
  show "quiet is_prepare (train_framework env a)" if "\<not> tc_eval (train_config a)"
    using that
    by (simp add: quiet_def train_framework_prepare prelude_prepare split: sum.splits prod.splits)
  show "train_framework
         (env\<lparr>prepare_inception_moments_eval_dataset :=
                 (\<lambda>g m. (fst (prepare_inception_moments_eval_dataset env g m),
                         fst (snd (prepare_inception_moments_eval_dataset env g m)),
                         score, deviation))\<rparr>) a
       = train_framework env a"
    by (rule train_framework_same) (simp_all add: same_world_def)
next
  assume h: "tc_eval (train_config a) \<and> outcome (launch env a) = Inr (tr, st)"
  then have ok: "outcome (launch env a) = Inr (tr, st)" and ev: "tc_eval (train_config a)"
    by simp_all
  show "filter is_prepare (trace_of (launch env a))
          = [Prepare_inception_moments (tr_gen_model tr) (type4eval_dataset a)]"
    using launch_ok_stats(1) [OF ok] ev by (simp add: launch_prepare)
  show "filter is_prepare (trace_of (train_framework env a))
          = [Prepare_inception_moments (tr_gen_model tr) (type4eval_dataset a)]"
    using launch_ok_stats(1) [OF ok] ev by (simp add: train_framework_prepare)
  show "quiet is_late (launch env a)"
    by (rule launch_no_training)
  show "trace_of (train_framework env a)
          = trace_of (launch env a) @ trace_of (train_dispatch env a tr st)
            @ trace_of (after_training env a tr
                 (if tc_train (train_config a) then max st (total_step a) else st))"
    by (simp add: train_framework_ok [OF ok])
  show "quiet is_prepare (train_dispatch env a tr st)"
    "quiet is_prepare (after_training env a tr
                 (if tc_train (train_config a) then max st (total_step a) else st))"
    by (rule after_launch_no_prepare)+
  show "tr_mu tr = Some (fst (prepare_inception_moments_eval_dataset env (tr_gen_model tr)
                                (type4eval_dataset a)))"
    "tr_sigma tr = Some (fst (snd (prepare_inception_moments_eval_dataset env
                                          (tr_gen_model tr) (type4eval_dataset a))))"
    using launch_ok_stats(2) [OF ok ev] by simp_all
  have 1: "quiet (uses_other_stats (tr_mu tr) (tr_sigma tr)) (launch env a)"
    by (rule launch_quiet) (auto simp: uses_other_stats_def elim: is_early.elims)
  have 2: "quiet (uses_other_stats (tr_mu tr) (tr_sigma tr)) (train_dispatch env a tr st)"
    by (rule train_dispatch_quiet) (simp_all add: uses_other_stats_def)
  have 3: "quiet (uses_other_stats (tr_mu tr) (tr_sigma tr)) (after_training env a tr s)" for s
    by (rule after_training_quiet) (simp_all add: uses_other_stats_def)
  show "quiet (uses_other_stats (tr_mu tr) (tr_sigma tr)) (train_framework env a)"
    using 1 2 3 by (simp add: train_framework_ok [OF ok] quiet_def)
qed

theorem reference_statistics_once_witness:
  "tc_eval (train_config demo_args)
   \<and> outcome (launch demo_env demo_args) = Inr (demo_trainer, 0)
   \<and> filter is_prepare (trace_of (train_framework demo_env demo_args))
       = [Prepare_inception_moments (tr_gen_model demo_trainer) ''test'']
   \<and> tr_mu demo_trainer = Some 21 \<and> tr_sigma demo_trainer = Some 22
   \<and> quiet (uses_other_stats (Some 21) (Some 22)) (train_framework demo_env demo_args)
   \<and> length (filter is_evaluation (trace_of (train_framework demo_env demo_args))) = 2"
proof -
  have e: "tc_eval (train_config demo_args)"
    by (simp add: demo_args_def demo_train_config_def)
  have m: "tr_mu demo_trainer = Some 21" "tr_sigma demo_trainer = Some 22"
    by (simp_all add: demo_trainer_def)
  have n: "length (filter is_evaluation (trace_of (train_framework demo_env demo_args))) = 2"
    by code_simp
  have t: "type4eval_dataset demo_args = ''test''"
    by (simp add: demo_args_def)
  have "filter is_prepare (trace_of (train_framework demo_env demo_args))
          = [Prepare_inception_moments (tr_gen_model demo_trainer) (type4eval_dataset demo_args)]
      \<and> quiet (uses_other_stats (tr_mu demo_trainer) (tr_sigma demo_trainer))
          (train_framework demo_env demo_args)"
    using reference_statistics_once
      [where env = demo_env and a = demo_args and tr = demo_trainer and st = 0
         and score = 0 and deviation = 0]
      demo_launch e
    by blast
  then show ?thesis
    using demo_launch e m n t by simp
qed

text \<open>The claim as it was stated has the whole result, quality score and deviation
  included, passed to the Trainer. In the concrete world and in the one with another
  quality score and deviation the Trainer is the same object and the two runs are equal.\<close>

theorem quality_score_not_forwarded:
  "tc_eval (train_config demo_args)
   \<and> prepare_inception_moments_eval_dataset demo_env (tr_gen_model demo_trainer) ''test''
       = (21, 22, 23, 24)
   \<and> prepare_inception_moments_eval_dataset rescored_env (tr_gen_model demo_trainer) ''test''
       = (21, 22, 99, 98)
   \<and> outcome (launch demo_env demo_args) = Inr (demo_trainer, 0)
   \<and> outcome (launch rescored_env demo_args) = Inr (demo_trainer, 0)
   \<and> train_framework rescored_env demo_args = train_framework demo_env demo_args"
proof -
  have "train_framework rescored_env demo_args = train_framework demo_env demo_args"
    by (rule train_framework_same) (simp_all add: same_world_def rescored_env_def demo_env_def)
  moreover have "outcome (launch rescored_env demo_args) = Inr (demo_trainer, 0)"
    by code_simp
  ultimately show ?thesis
    using demo_launch
    by (simp add: demo_args_def demo_train_config_def rescored_env_def demo_env_def)
qed

subsection \<open>Claim C1: the seed of a resumed run\<close>

text \<open>
  C1. Take a resume attempt (\<open>train_config['checkpoint_folder']\<close> is not \<open>None\<close>).
  If lines 48 to 135 succeed and the checkpoints are restored (lines 138 to 152 complete),
  the value \<open>trained_seed\<close> that line 153 compares is the seed stored in the file that
  was loaded for the Discriminator (the load of line 145 is the one whose metadata the
  code keeps); if it differs from the configured seed, the run ends with the
  AssertionError of line 153, the Trainer is never constructed and no training call is
  made. Conversely, whenever the run of a resume attempt invokes \<open>run\<close> or \<open>run_ours\<close>,
  the checkpoints were restored with a seed equal to the configured one.
\<close>

theorem seed_mismatch_rejected:
  assumes "tc_checkpoint_folder (train_config a) = Some folder"
  shows "(outcome (initialise env a) = Inr fr
          \<and> outcome (restore env a folder fr) = Inr (fr1, ts, cd) \<longrightarrow>
            (\<exists>pd ckd.
                py_index (glob env (checkpoint_pattern cd ''D''
                   (if load_current a then ''current'' else ''best''))) 0 = Inr pd
              \<and> files env pd = Some ckd \<and> ts = ck_seed ckd)
          \<and> (ts \<noteq> seed a \<longrightarrow>
                outcome (train_framework env a)
                  = Inl (AssertionError ''seed for sampling random numbers should be same!'')
              \<and> quiet is_trainer_init (train_framework env a)
              \<and> quiet is_training (train_framework env a)))
       \<and> (\<not> quiet is_loop_call (train_framework env a) \<longrightarrow>
            (\<exists>fr' fr1' cd'.
                outcome (initialise env a) = Inr fr'
              \<and> outcome (restore env a folder fr') = Inr (fr1', seed a, cd')))"
proof (intro conjI impI)
  assume h: "outcome (initialise env a) = Inr fr
          \<and> outcome (restore env a folder fr) = Inr (fr1, ts, cd)"
  then have r: "outcome (restore env a folder fr) = Inr (fr1, ts, cd)"
    by simp
  from r show "\<exists>pd ckd.
                py_index (glob env (checkpoint_pattern cd ''D''
                   (if load_current a then ''current'' else ''best''))) 0 = Inr pd
              \<and> files env pd = Some ckd \<and> ts = ck_seed ckd"
    by (rule restore_ok) blast
  {
    assume "ts \<noteq> seed a"
    with r have "outcome (resume env a fr)
             = Inl (AssertionError ''seed for sampling random numbers should be same!'')"
      by (rule resume_restored(3) [OF assms])
    with h have
      "train_framework env a = (trace_of (initialise env a) @ trace_of (resume env a fr),
          Inl (AssertionError ''seed for sampling random numbers should be same!''))"
      "quiet is_trainer_init (train_framework env a)"
      "quiet is_training (train_framework env a)"
      by (blast intro: prelude_stops_in_resume)+
    then have "outcome (train_framework env a)
                  = Inl (AssertionError ''seed for sampling random numbers should be same!'')
              \<and> quiet is_trainer_init (train_framework env a)
              \<and> quiet is_training (train_framework env a)"
      by simp
  }
  then show "ts \<noteq> seed a \<Longrightarrow> outcome (train_framework env a)
                  = Inl (AssertionError ''seed for sampling random numbers should be same!'')"
    "ts \<noteq> seed a \<Longrightarrow> quiet is_trainer_init (train_framework env a)"
    "ts \<noteq> seed a \<Longrightarrow> quiet is_training (train_framework env a)"
    by simp_all
next
  assume "\<not> quiet is_loop_call (train_framework env a)"
  then obtain tr st where "outcome (launch env a) = Inr (tr, st)"
    by (rule loop_call_needs_launch)
  then obtain fr' fr1' cd' where "outcome (initialise env a) = Inr fr'"
    "outcome (resume env a fr') = Inr (fr1', cd')"
    by (rule launch_ok_elim)
  then show "\<exists>fr' fr1' cd'.
                outcome (initialise env a) = Inr fr'
              \<and> outcome (restore env a folder fr') = Inr (fr1', seed a, cd')"
    using resume_restored(1) [OF assms] by blast
qed

theorem seed_mismatch_rejected_witness:
  "tc_checkpoint_folder (train_config mismatch_args) = Some ''ck''
   \<and> seed mismatch_args = 1
   \<and> outcome (initialise demo_env mismatch_args) = Inr demo_frame
   \<and> (case outcome (restore demo_env mismatch_args ''ck'' demo_frame) of
         Inl e \<Rightarrow> False
       | Inr (fr1, ts, cd) \<Rightarrow> ts = 0 \<and> cd = ''ck'')
   \<and> outcome (train_framework demo_env mismatch_args)
       = Inl (AssertionError ''seed for sampling random numbers should be same!'')
   \<and> quiet is_training (train_framework demo_env mismatch_args)"
proof -
  have f: "tc_checkpoint_folder (train_config mismatch_args) = Some ''ck''"
    and s: "seed mismatch_args = 1"
    by (simp_all add: mismatch_args_def demo_resume_args_def)
  from mismatch_restore obtain fr1 where
    r: "outcome (restore demo_env mismatch_args ''ck'' demo_frame) = Inr (fr1, 0, ''ck'')"
    by (auto split: sum.splits)
  have "outcome (train_framework demo_env mismatch_args)
       = Inl (AssertionError ''seed for sampling random numbers should be same!'')
   \<and> quiet is_training (train_framework demo_env mismatch_args)"
    using seed_mismatch_rejected
      [OF f, where env = demo_env and fr = demo_frame and ?fr1.0 = fr1 and ts = 0
         and cd = "''ck''"]
      mismatch_initialise r s
    by simp
  then show ?thesis
    using f s mismatch_initialise mismatch_restore by simp
qed

subsection \<open>Claim C7: the step counter\<close>

text \<open>
  C7. In a run that gets as far as line 264 (the Trainer has been constructed as \<open>tr\<close>,
  the step counter stands at \<open>st\<close>): on a fresh start \<open>st\<close> is 0; on a resume \<open>st\<close> is
  the step recorded in the file that was loaded for the Discriminator (the load of line
  145 is the one whose counters the code keeps). With training enabled the loop is called
  with \<open>current_step = st\<close> and \<open>total_step\<close>. Either loop returns; it takes one
  iteration per step from \<open>st\<close> up to \<open>total_step\<close> and returns the final count, which is
  \<open>total_step\<close> when \<open>st\<close> does not exceed it (and \<open>st\<close> itself, after no iteration,
  when it does). With evaluation enabled, the evaluation call after training is made
  once, with the step the loop returned (with \<open>st\<close> when training is disabled).
\<close>

theorem step_counter_continues:
  assumes "outcome (launch env a) = Inr (tr, st)"
  shows "(tc_checkpoint_folder (train_config a) = None \<longrightarrow> st = 0)
       \<and> (tc_checkpoint_folder (train_config a) = Some folder \<longrightarrow>
            (\<exists>cd pd ckd.
                py_index (glob env (checkpoint_pattern cd ''D''
                   (if load_current a then ''current'' else ''best''))) 0 = Inr pd
              \<and> files env pd = Some ckd \<and> st = ck_step ckd))
       \<and> (tc_train (train_config a) \<longrightarrow>
            filter is_loop_call (trace_of (train_framework env a)) =
              [if conditional_strategy a \<in> {''ContraGAN'', ''Proxy_NCA_GAN'', ''XT_Xent_GAN''}
               then Invoke_run_ours st (total_step a) else Invoke_run st (total_step a)])
       \<and> outcome (run env tr st (total_step a)) = Inr (max st (total_step a))
       \<and> outcome (run_ours env tr st (total_step a)) = Inr (max st (total_step a))
       \<and> length (filter is_d_step (trace_of (run env tr st (total_step a))))
           = nat (total_step a - st)
       \<and> length (filter is_d_step (trace_of (run_ours env tr st (total_step a))))
           = nat (total_step a - st)
       \<and> (tc_eval (train_config a) \<longrightarrow>
            filter is_invoke_evaluation (trace_of (train_framework env a)) =
              [Invoke_evaluation
                 (if tc_train (train_config a) then max st (total_step a) else st)])"
proof (intro conjI impI)
  show "st = 0" if "tc_checkpoint_folder (train_config a) = None"
    using launch_step(1) [OF assms that] .
  show "\<exists>cd pd ckd.
                py_index (glob env (checkpoint_pattern cd ''D''
                   (if load_current a then ''current'' else ''best''))) 0 = Inr pd
              \<and> files env pd = Some ckd \<and> st = ck_step ckd"
    if "tc_checkpoint_folder (train_config a) = Some folder"
    using launch_step(2) [OF assms that] by blast
  have l: "filter is_loop_call (trace_of (after_training env a tr s)) = []" for s
    using after_training_quiet [of is_loop_call tr env a s] by (simp add: quiet_def)
  show "filter is_loop_call (trace_of (train_framework env a)) =
              [if conditional_strategy a \<in> {''ContraGAN'', ''Proxy_NCA_GAN'', ''XT_Xent_GAN''}
               then Invoke_run_ours st (total_step a) else Invoke_run st (total_step a)]"
    if "tc_train (train_config a)"
    using that launch_no_training(3) [of env a]
    by (simp add: train_framework_ok [OF assms] train_dispatch_loop_calls l quiet_def)
  show "outcome (run env tr st (total_step a)) = Inr (max st (total_step a))"
    "outcome (run_ours env tr st (total_step a)) = Inr (max st (total_step a))"
    by (simp_all add: run_def run_ours_def train_loop_outcome)
  show "length (filter is_d_step (trace_of (run env tr st (total_step a))))
           = nat (total_step a - st)"
    "length (filter is_d_step (trace_of (run_ours env tr st (total_step a))))
           = nat (total_step a - st)"
    by (simp_all add: run_def run_ours_def train_loop_d_steps)
  have d: "filter is_invoke_evaluation (trace_of (train_dispatch env a tr st)) = []"
    using train_dispatch_quiet [of is_invoke_evaluation tr env a st] by (simp add: quiet_def)
  show "filter is_invoke_evaluation (trace_of (train_framework env a)) =
              [Invoke_evaluation
                 (if tc_train (train_config a) then max st (total_step a) else st)]"
    if "tc_eval (train_config a)"
    using that launch_no_training(4) [of env a] d
    by (simp add: train_framework_ok [OF assms] after_training_invoke_evaluation quiet_def)
qed

theorem step_counter_continues_witness:
  "outcome (launch demo_env demo_args) = Inr (demo_trainer, 0)
   \<and> tc_checkpoint_folder (train_config demo_args) = None
   \<and> filter is_loop_call (trace_of (train_framework demo_env demo_args))
       = [Invoke_run_ours 0 3]
   \<and> filter is_invoke_evaluation (trace_of (train_framework demo_env demo_args))
       = [Invoke_evaluation 3]
   \<and> (case outcome (launch demo_env demo_resume_args) of
         Inl e \<Rightarrow> False
       | Inr (tr, st) \<Rightarrow> st = 7)
   \<and> tc_checkpoint_folder (train_config demo_resume_args) = Some ''ck''
   \<and> ck_step demo_checkpoint = 7
   \<and> filter is_loop_call (trace_of (train_framework demo_env demo_resume_args))
       = [Invoke_run_ours 7 3]
   \<and> filter is_invoke_evaluation (trace_of (train_framework demo_env demo_resume_args))
       = [Invoke_evaluation 7]"
proof -
  have c: "tc_checkpoint_folder (train_config demo_args) = None"
    "tc_train (train_config demo_args)" "tc_eval (train_config demo_args)"
    "total_step demo_args = 3" "conditional_strategy demo_args = ''ContraGAN''"
    by (simp_all add: demo_args_def demo_train_config_def)
  have c': "tc_checkpoint_folder (train_config demo_resume_args) = Some ''ck''"
    "tc_train (train_config demo_resume_args)" "tc_eval (train_config demo_resume_args)"
    "total_step demo_resume_args = 3" "conditional_strategy demo_resume_args = ''ContraGAN''"
    by (simp_all add: demo_resume_args_def demo_args_def demo_train_config_def)
  have 1: "filter is_loop_call (trace_of (train_framework demo_env demo_args))
       = [Invoke_run_ours 0 3]
   \<and> filter is_invoke_evaluation (trace_of (train_framework demo_env demo_args))
       = [Invoke_evaluation 3]"
    using step_counter_continues [OF demo_launch, where folder = "''ck''"] c by simp
  from demo_resume_launch obtain tr where
    r: "outcome (launch demo_env demo_resume_args) = Inr (tr, 7)"
    by (auto split: sum.splits)
  have 2: "filter is_loop_call (trace_of (train_framework demo_env demo_resume_args))
       = [Invoke_run_ours 7 3]
   \<and> filter is_invoke_evaluation (trace_of (train_framework demo_env demo_resume_args))
       = [Invoke_evaluation 7]"
    using step_counter_continues [OF r, where folder = "''ck''"] c' by simp
  show ?thesis
    using 1 2 c(1) c'(1) demo_launch demo_resume_launch by (simp add: demo_checkpoint_def)
qed

end
